theory Spec2Isabelle
  imports Main
begin

section \<open>The CodeCommit repository resource\<close>

text \<open>
  A shallow embedding of \<^verbatim>\<open>aws/resource_aws_codecommit_repository.go\<close>: the attribute
  schema of the resource and its four handlers (Create, Update, Read, Delete) with the
  two helpers of the same file. The handlers talk to two things that live outside the
  file: the resource data \<^verbatim>\<open>d\<close> of the plugin SDK and the CodeCommit client
  \<^verbatim>\<open>conn\<close>. Both are made explicit: \<^verbatim>\<open>d\<close> is a record that each handler takes
  and returns, the client is a record of functions over a remote state \<open>'s\<close>, and every
  handler also returns the list of the remote calls it made, in order, each with the
  error the call returned, if any.
\<close>

subsection \<open>Go errors\<close>

text \<open>
  A Go \<^verbatim>\<open>error\<close> value returned by the client: the text of \<^verbatim>\<open>err.Error()\<close>, and,
  when the value implements \<^verbatim>\<open>awserr.Error\<close>, its \<^verbatim>\<open>Code()\<close> and \<^verbatim>\<open>Message()\<close>.
\<close>

datatype go_error = GoError (Error: string) (awserr: "(string \<times> string) option")

text \<open>\<^verbatim>\<open>strings.Contains\<close>: the second string occurs in the first.\<close>

fun HasPrefix :: "string \<Rightarrow> string \<Rightarrow> bool" where
  "HasPrefix s [] = True"
| "HasPrefix [] (c # cs) = False"
| "HasPrefix (x # xs) (c # cs) = (x = c \<and> HasPrefix xs cs)"

fun Contains :: "string \<Rightarrow> string \<Rightarrow> bool" where
  "Contains [] sub = HasPrefix [] sub"
| "Contains (x # xs) sub = (HasPrefix (x # xs) sub \<or> Contains xs sub)"

text \<open>
  Modelled from the spec: \<^verbatim>\<open>isAWSErr\<close> is declared in another file of the repository.
  The spec speaks of a failure "with the repository does not exist error code": the
  error is an \<^verbatim>\<open>awserr.Error\<close>, its code is the given one and its message contains
  the given text (the handler passes the empty text).
\<close>

definition isAWSErr :: "go_error \<Rightarrow> string \<Rightarrow> string \<Rightarrow> bool" where
  "isAWSErr err code message =
     (case awserr err of
        None \<Rightarrow> False
      | Some (c, m) \<Rightarrow> c = code \<and> Contains m message)"

text \<open>The constant \<^verbatim>\<open>codecommit.ErrCodeRepositoryDoesNotExistException\<close> of the AWS SDK.\<close>

definition ErrCodeRepositoryDoesNotExistException :: string where
  "ErrCodeRepositoryDoesNotExistException = ''RepositoryDoesNotExistException''"

subsection \<open>The attribute schema\<close>

datatype ValueType = TypeBool | TypeInt | TypeFloat | TypeString | TypeList | TypeMap | TypeSet

text \<open>
  \<^verbatim>\<open>validation.StringLenBetween(min, max)\<close> of the plugin SDK, applied to a string
  value \<open>v\<close> of the attribute \<open>k\<close>: no warnings, and one error when the length in bytes
  is outside the range. An error is kept as the data its message is formatted from.
\<close>

datatype validation_error = LengthOutOfRange string int int string

definition StringLenBetween ::
  "int \<Rightarrow> int \<Rightarrow> string \<Rightarrow> string \<Rightarrow> string list \<times> validation_error list" where
  "StringLenBetween lo hi v k =
     (if int (length v) < lo \<or> int (length v) > hi
      then ([], [LengthOutOfRange k lo hi v])
      else ([], []))"

record Schema =
  Type :: ValueType
  Required :: bool
  Optional :: bool
  Computed :: bool
  ForceNew :: bool
  ValidateFunc :: "(string \<Rightarrow> string \<Rightarrow> string list \<times> validation_error list) option"

definition schema_zero :: Schema where
  "schema_zero = \<lparr>Type = TypeString, Required = False, Optional = False, Computed = False,
     ForceNew = False, ValidateFunc = None\<rparr>"

text \<open>
  Modelled from the spec: \<^verbatim>\<open>tagsSchema\<close> is declared in another file of the repository.
  The spec gives the resource "a set of key/value tags" that the configuration may
  leave out: an optional attribute of map type.
\<close>

definition tagsSchema :: Schema where
  "tagsSchema = schema_zero\<lparr>Type := TypeMap, Optional := True\<rparr>"

text \<open>
  The \<^verbatim>\<open>Schema\<close> field of \<^verbatim>\<open>resourceAwsCodeCommitRepository()\<close>: the entries of the
  map literal in the order they are written.
\<close>

definition resourceAwsCodeCommitRepository_Schema :: "(string \<times> Schema) list" where
  "resourceAwsCodeCommitRepository_Schema =
     [(''repository_name'',
         schema_zero\<lparr>Type := TypeString, Required := True, ForceNew := True,
           ValidateFunc := Some (StringLenBetween 0 100)\<rparr>),
      (''description'',
         schema_zero\<lparr>Type := TypeString, Optional := True,
           ValidateFunc := Some (StringLenBetween 0 1000)\<rparr>),
      (''arn'', schema_zero\<lparr>Type := TypeString, Computed := True\<rparr>),
      (''repository_id'', schema_zero\<lparr>Type := TypeString, Computed := True\<rparr>),
      (''clone_url_http'', schema_zero\<lparr>Type := TypeString, Computed := True\<rparr>),
      (''clone_url_ssh'', schema_zero\<lparr>Type := TypeString, Computed := True\<rparr>),
      (''default_branch'', schema_zero\<lparr>Type := TypeString, Optional := True\<rparr>),
      (''tags'', tagsSchema)]"

text \<open>
  What the host does with a \<^verbatim>\<open>ValidateFunc\<close>: the value is accepted when the function
  reports no error (an attribute without one accepts every value).
\<close>

definition accepts :: "Schema \<Rightarrow> string \<Rightarrow> string \<Rightarrow> bool" where
  "accepts sch k v =
     (case ValidateFunc sch of None \<Rightarrow> True | Some f \<Rightarrow> snd (f v k) = [])"

subsection \<open>The resource data of the plugin SDK\<close>

type_synonym tf_tags = "string \<rightharpoonup> string"
type_synonym cc_tags = "string \<rightharpoonup> string option"

text \<open>
  \<^verbatim>\<open>*schema.ResourceData\<close>, as far as the handlers use it. The schema fixes the type of
  every attribute, so the string attributes and the map attributes are kept apart and a
  read needs no type assertion that could fail. The SDK reads an attribute on three
  levels: the prior state, the planned values (the configuration over the state) and
  the values written with \<^verbatim>\<open>d.Set\<close>. An attribute that is not set reads as the zero
  value of its type: the empty string, the empty map.
\<close>

record ResourceData =
  rd_id :: string
  rd_new :: bool
  rd_state :: "string \<Rightarrow> string"
  rd_diff :: "string \<Rightarrow> string"
  rd_set :: "string \<rightharpoonup> string"
  rd_state_maps :: "string \<Rightarrow> tf_tags"
  rd_diff_maps :: "string \<Rightarrow> tf_tags"
  rd_set_maps :: "string \<rightharpoonup> tf_tags"

definition d_Id :: "ResourceData \<Rightarrow> string" where
  "d_Id d = rd_id d"

definition d_SetId :: "string \<Rightarrow> ResourceData \<Rightarrow> ResourceData" where
  "d_SetId v d = d\<lparr>rd_id := v\<rparr>"

definition d_IsNewResource :: "ResourceData \<Rightarrow> bool" where
  "d_IsNewResource d = rd_new d"

text \<open>\<^verbatim>\<open>d.Get(key).(string)\<close> and \<^verbatim>\<open>d.Get(key).(map[string]interface{})\<close>.\<close>

definition d_Get :: "ResourceData \<Rightarrow> string \<Rightarrow> string" where
  "d_Get d key = (case rd_set d key of Some v \<Rightarrow> v | None \<Rightarrow> rd_diff d key)"

definition d_Get_map :: "ResourceData \<Rightarrow> string \<Rightarrow> tf_tags" where
  "d_Get_map d key = (case rd_set_maps d key of Some m \<Rightarrow> m | None \<Rightarrow> rd_diff_maps d key)"

text \<open>\<^verbatim>\<open>d.GetOk\<close> of a string attribute: the value, and whether it is not the zero value.\<close>

definition d_GetOk :: "ResourceData \<Rightarrow> string \<Rightarrow> string \<times> bool" where
  "d_GetOk d key = (d_Get d key, d_Get d key \<noteq> [])"

text \<open>\<^verbatim>\<open>d.HasChange\<close> of a string attribute compares the prior state with the plan.\<close>

definition d_HasChange :: "ResourceData \<Rightarrow> string \<Rightarrow> bool" where
  "d_HasChange d key = (rd_state d key \<noteq> rd_diff d key)"

text \<open>
  The values the handlers pass to \<^verbatim>\<open>d.Set\<close>: a \<^verbatim>\<open>*string\<close> of a response (which may be
  \<^verbatim>\<open>nil\<close>), or a map of tags. \<^verbatim>\<open>d.Set\<close> fails on a key the schema does not have and on
  a value that does not fit the attribute's type, and then writes nothing. A \<^verbatim>\<open>nil\<close>
  pointer written to a string attribute makes it read as the empty string.
\<close>

datatype go_value = StringPtr "string option" | TagsMap tf_tags

definition aws_StringValue :: "string option \<Rightarrow> string" where
  "aws_StringValue p = (case p of None \<Rightarrow> [] | Some v \<Rightarrow> v)"

definition d_Set :: "string \<Rightarrow> go_value \<Rightarrow> ResourceData \<Rightarrow> go_error option \<times> ResourceData" where
  "d_Set key v d =
     (case map_of resourceAwsCodeCommitRepository_Schema key of
        None \<Rightarrow> (Some (GoError (''Invalid address to set: '' @ key) None), d)
      | Some sch \<Rightarrow>
          (case v of
             StringPtr p \<Rightarrow>
               if Type sch = TypeString
               then (None, d\<lparr>rd_set := (rd_set d)(key \<mapsto> aws_StringValue p)\<rparr>)
               else (Some (GoError (key @ '': value does not fit the attribute'') None), d)
           | TagsMap m \<Rightarrow>
               if Type sch = TypeMap
               then (None, d\<lparr>rd_set_maps := (rd_set_maps d)(key \<mapsto> m)\<rparr>)
               else (Some (GoError (key @ '': value does not fit the attribute'') None), d)))"

subsection \<open>The CodeCommit client and the helpers of other files\<close>

text \<open>
  \<^verbatim>\<open>codecommit.RepositoryMetadata\<close>: the fields the handlers read, each a \<^verbatim>\<open>*string\<close>.
\<close>

record RepositoryMetadata =
  Arn :: "string option"
  CloneUrlHttp :: "string option"
  CloneUrlSsh :: "string option"
  DefaultBranch :: "string option"
  RepositoryDescription :: "string option"
  RepositoryId :: "string option"
  RepositoryName :: "string option"

text \<open>
  The requests of the file. A field filled with \<^verbatim>\<open>aws.String(...)\<close> is never \<^verbatim>\<open>nil\<close>
  and is kept as a string; \<^verbatim>\<open>ResourceArn\<close> is the pointer of the response. The last
  constructor is the call of the tag helper \<^verbatim>\<open>setTagsCodeCommit(conn, d)\<close>, with the
  Id and the planned tags of the \<^verbatim>\<open>d\<close> it is given.
\<close>

datatype request =
    is_CreateRepository: CreateRepositoryInput string string cc_tags
  | is_GetRepository: GetRepositoryInput string
  | is_ListTagsForResource: ListTagsForResourceInput "string option"
  | is_DeleteRepository: DeleteRepositoryInput string
  | is_UpdateRepositoryDescription: UpdateRepositoryDescriptionInput string string
  | is_ListBranches: ListBranchesInput string
  | is_UpdateDefaultBranch: UpdateDefaultBranchInput string string
  | is_SetTags: SetTagsCall string tf_tags

type_synonym event = "request \<times> go_error option"

text \<open>
  \<^verbatim>\<open>*codecommit.CodeCommit\<close>: each operation takes the fields of its request and the
  remote state, and returns the error or the output, and the new remote state. The
  output of \<^verbatim>\<open>CreateRepository\<close> and \<^verbatim>\<open>GetRepository\<close> is its \<^verbatim>\<open>RepositoryMetadata\<close>
  pointer, which the type lets be \<^verbatim>\<open>nil\<close>.
\<close>

record 's CodeCommit =
  CreateRepository ::
    "string \<Rightarrow> string \<Rightarrow> cc_tags \<Rightarrow> 's \<Rightarrow> (go_error + RepositoryMetadata option) \<times> 's"
  GetRepository :: "string \<Rightarrow> 's \<Rightarrow> (go_error + RepositoryMetadata option) \<times> 's"
  ListTagsForResource :: "string option \<Rightarrow> 's \<Rightarrow> (go_error + cc_tags) \<times> 's"
  DeleteRepository :: "string \<Rightarrow> 's \<Rightarrow> go_error option \<times> 's"
  UpdateRepositoryDescription :: "string \<Rightarrow> string \<Rightarrow> 's \<Rightarrow> go_error option \<times> 's"
  ListBranches :: "string \<Rightarrow> 's \<Rightarrow> (go_error + string list) \<times> 's"
  UpdateDefaultBranch :: "string \<Rightarrow> string \<Rightarrow> 's \<Rightarrow> go_error option \<times> 's"

text \<open>
  \<^verbatim>\<open>meta.(*AWSClient)\<close>: the client, and with it the three tag helpers that other files
  of the repository declare (\<^verbatim>\<open>setTagsCodeCommit\<close>, \<^verbatim>\<open>tagsFromMapCodeCommit\<close>,
  \<^verbatim>\<open>tagsToMapCodeCommit\<close>), taken as parameters.
\<close>

record 's AWSClient =
  codecommitconn :: "'s CodeCommit"
  setTagsCodeCommit :: "ResourceData \<Rightarrow> 's \<Rightarrow> go_error option \<times> 's"
  tagsFromMapCodeCommit :: "tf_tags \<Rightarrow> cc_tags"
  tagsToMapCodeCommit :: "cc_tags \<Rightarrow> tf_tags"

subsection \<open>The handlers\<close>

text \<open>
  What a handler does: it returns \<^verbatim>\<open>nil\<close> or an error with a message, or it panics on
  a \<^verbatim>\<open>nil\<close> pointer. The helpers of the file cannot panic and return an optional
  message. \<^verbatim>\<open>log.Printf\<close> is left out.
\<close>

datatype outcome = Returned "string option" | Panicked

type_synonym 's handled = "outcome \<times> ResourceData \<times> 's \<times> event list"

definition resourceAwsCodeCommitUpdateDescription ::
  "'s CodeCommit \<Rightarrow> ResourceData \<Rightarrow> 's \<Rightarrow> string option \<times> 's \<times> event list" where
  "resourceAwsCodeCommitUpdateDescription conn d s =
     (case UpdateRepositoryDescription conn (d_Id d) (d_Get d ''description'') s of
        (Some err, s1) \<Rightarrow>
          (Some (''Error Updating Repository Description for CodeCommit Repository: '' @ Error err),
           s1, [(UpdateRepositoryDescriptionInput (d_Id d) (d_Get d ''description''), Some err)])
      | (None, s1) \<Rightarrow>
          (None, s1, [(UpdateRepositoryDescriptionInput (d_Id d) (d_Get d ''description''), None)]))"

definition resourceAwsCodeCommitUpdateDefaultBranch ::
  "'s CodeCommit \<Rightarrow> ResourceData \<Rightarrow> 's \<Rightarrow> string option \<times> 's \<times> event list" where
  "resourceAwsCodeCommitUpdateDefaultBranch conn d s =
     (case ListBranches conn (d_Id d) s of
        (Inl err, s1) \<Rightarrow>
          (Some (''Error reading CodeCommit Repository branches: '' @ Error err),
           s1, [(ListBranchesInput (d_Id d), Some err)])
      | (Inr Branches, s1) \<Rightarrow>
          if length Branches = 0
          then (None, s1, [(ListBranchesInput (d_Id d), None)])
          else
            (case UpdateDefaultBranch conn (d_Id d) (d_Get d ''default_branch'') s1 of
               (Some err, s2) \<Rightarrow>
                 (Some (''Error Updating Default Branch for CodeCommit Repository: '' @ Error err),
                  s2,
                  [(ListBranchesInput (d_Id d), None),
                   (UpdateDefaultBranchInput (d_Id d) (d_Get d ''default_branch''), Some err)])
             | (None, s2) \<Rightarrow>
                 (None, s2,
                  [(ListBranchesInput (d_Id d), None),
                   (UpdateDefaultBranchInput (d_Id d) (d_Get d ''default_branch''), None)])))"

definition resourceAwsCodeCommitRepositoryRead ::
  "'s AWSClient \<Rightarrow> ResourceData \<Rightarrow> 's \<Rightarrow> 's handled" where
  "resourceAwsCodeCommitRepositoryRead meta d s =
     (let conn = codecommitconn meta in
      case GetRepository conn (d_Id d) s of
        (Inl err, s1) \<Rightarrow>
          if isAWSErr err ErrCodeRepositoryDoesNotExistException []
          then (Returned None, d_SetId [] d, s1, [(GetRepositoryInput (d_Id d), Some err)])
          else (Returned (Some (''Error reading CodeCommit Repository: '' @ Error err)),
                d, s1, [(GetRepositoryInput (d_Id d), Some err)])
      | (Inr None, s1) \<Rightarrow> (Panicked, d, s1, [(GetRepositoryInput (d_Id d), None)])
      | (Inr (Some md), s1) \<Rightarrow>
          let d1 = snd (d_Set ''repository_id'' (StringPtr (RepositoryId md)) d);
              d2 = snd (d_Set ''arn'' (StringPtr (Arn md)) d1);
              d3 = snd (d_Set ''clone_url_http'' (StringPtr (CloneUrlHttp md)) d2);
              d4 = snd (d_Set ''clone_url_ssh'' (StringPtr (CloneUrlSsh md)) d3);
              d5 = snd (d_Set ''description'' (StringPtr (RepositoryDescription md)) d4);
              d6 = snd (d_Set ''repository_name'' (StringPtr (RepositoryName md)) d5);
              d7 = (if snd (d_GetOk d6 ''default_branch'') \<and> DefaultBranch md \<noteq> None
                    then snd (d_Set ''default_branch'' (StringPtr (DefaultBranch md)) d6)
                    else d6)
          in
            (case ListTagsForResource conn (Arn md) s1 of
               (Inl err, s2) \<Rightarrow>
                 (Returned (Some (''error listing CodeCommit Repository tags for '' @ d_Id d7
                    @ '': '' @ Error err)),
                  d7, s2,
                  [(GetRepositoryInput (d_Id d), None),
                   (ListTagsForResourceInput (Arn md), Some err)])
             | (Inr Tags, s2) \<Rightarrow>
                 (case d_Set ''tags'' (TagsMap (tagsToMapCodeCommit meta Tags)) d7 of
                    (Some err, d8) \<Rightarrow>
                      (Returned (Some (''error setting tags: '' @ Error err)), d8, s2,
                       [(GetRepositoryInput (d_Id d), None),
                        (ListTagsForResourceInput (Arn md), None)])
                  | (None, d8) \<Rightarrow>
                      (Returned None, d8, s2,
                       [(GetRepositoryInput (d_Id d), None),
                        (ListTagsForResourceInput (Arn md), None)]))))"

definition resourceAwsCodeCommitRepositoryUpdate ::
  "'s AWSClient \<Rightarrow> ResourceData \<Rightarrow> 's \<Rightarrow> 's handled" where
  "resourceAwsCodeCommitRepositoryUpdate meta d s =
     (let conn = codecommitconn meta in
      case (if snd (d_GetOk d ''default_branch'') \<and> d_HasChange d ''default_branch''
            then resourceAwsCodeCommitUpdateDefaultBranch conn d s
            else (None, s, [])) of
        (Some err, s1, ev1) \<Rightarrow> (Returned (Some err), d, s1, ev1)
      | (None, s1, ev1) \<Rightarrow>
          (case (if d_HasChange d ''description''
                 then resourceAwsCodeCommitUpdateDescription conn d s1
                 else (None, s1, [])) of
             (Some err, s2, ev2) \<Rightarrow> (Returned (Some err), d, s2, ev1 @ ev2)
           | (None, s2, ev2) \<Rightarrow>
               (case (if \<not> d_IsNewResource d
                      then (case setTagsCodeCommit meta d s2 of
                              (Some err, s3) \<Rightarrow>
                                (Some (''error updating CodeCommit Repository tags for '' @ d_Id d
                                   @ '': '' @ Error err),
                                 s3, [(SetTagsCall (d_Id d) (d_Get_map d ''tags''), Some err)])
                            | (None, s3) \<Rightarrow>
                                (None, s3, [(SetTagsCall (d_Id d) (d_Get_map d ''tags''), None)]))
                      else (None, s2, [])) of
                  (Some err, s3, ev3) \<Rightarrow> (Returned (Some err), d, s3, ev1 @ ev2 @ ev3)
                | (None, s3, ev3) \<Rightarrow>
                    (case resourceAwsCodeCommitRepositoryRead meta d s3 of
                       (r, d', s4, ev4) \<Rightarrow> (r, d', s4, ev1 @ ev2 @ ev3 @ ev4)))))"

definition resourceAwsCodeCommitRepositoryCreate ::
  "'s AWSClient \<Rightarrow> ResourceData \<Rightarrow> 's \<Rightarrow> 's handled" where
  "resourceAwsCodeCommitRepositoryCreate meta d s =
     (let conn = codecommitconn meta;
          input = CreateRepositoryInput (d_Get d ''repository_name'') (d_Get d ''description'')
                    (tagsFromMapCodeCommit meta (d_Get_map d ''tags''))
      in
      case CreateRepository conn (d_Get d ''repository_name'') (d_Get d ''description'')
             (tagsFromMapCodeCommit meta (d_Get_map d ''tags'')) s of
        (Inl err, s1) \<Rightarrow>
          (Returned (Some (''Error creating CodeCommit Repository: '' @ Error err)),
           d, s1, [(input, Some err)])
      | (Inr None, s1) \<Rightarrow>
          (Panicked, d_SetId (d_Get d ''repository_name'') d, s1, [(input, None)])
      | (Inr (Some md), s1) \<Rightarrow>
          let d0 = d_SetId (d_Get d ''repository_name'') d;
              d1 = snd (d_Set ''repository_id'' (StringPtr (RepositoryId md)) d0);
              d2 = snd (d_Set ''arn'' (StringPtr (Arn md)) d1);
              d3 = snd (d_Set ''clone_url_http'' (StringPtr (CloneUrlHttp md)) d2);
              d4 = snd (d_Set ''clone_url_ssh'' (StringPtr (CloneUrlSsh md)) d3)
          in
            (case resourceAwsCodeCommitRepositoryUpdate meta d4 s1 of
               (r, d', s2, ev) \<Rightarrow> (r, d', s2, (input, None) # ev)))"

definition resourceAwsCodeCommitRepositoryDelete ::
  "'s AWSClient \<Rightarrow> ResourceData \<Rightarrow> 's \<Rightarrow> 's handled" where
  "resourceAwsCodeCommitRepositoryDelete meta d s =
     (let conn = codecommitconn meta in
      case DeleteRepository conn (d_Id d) s of
        (Some err, s1) \<Rightarrow>
          (Returned (Some (''Error deleting CodeCommit Repository: '' @ Error err)),
           d, s1, [(DeleteRepositoryInput (d_Id d), Some err)])
      | (None, s1) \<Rightarrow> (Returned None, d, s1, [(DeleteRepositoryInput (d_Id d), None)]))"


subsection \<open>The state the handlers leave behind\<close>

text \<open>
  The resource data after lines 80 to 84 of Create (the Id and the four computed
  attributes written from the metadata of the response), and after lines 132 to 143 of
  Read (the six attributes, and the default branch under its two conditions).
\<close>

definition after_create :: "ResourceData \<Rightarrow> RepositoryMetadata \<Rightarrow> ResourceData" where
  "after_create d md =
     (let d0 = d_SetId (d_Get d ''repository_name'') d;
          d1 = snd (d_Set ''repository_id'' (StringPtr (RepositoryId md)) d0);
          d2 = snd (d_Set ''arn'' (StringPtr (Arn md)) d1);
          d3 = snd (d_Set ''clone_url_http'' (StringPtr (CloneUrlHttp md)) d2)
      in snd (d_Set ''clone_url_ssh'' (StringPtr (CloneUrlSsh md)) d3))"

definition after_get :: "ResourceData \<Rightarrow> RepositoryMetadata \<Rightarrow> ResourceData" where
  "after_get d md =
     (let d1 = snd (d_Set ''repository_id'' (StringPtr (RepositoryId md)) d);
          d2 = snd (d_Set ''arn'' (StringPtr (Arn md)) d1);
          d3 = snd (d_Set ''clone_url_http'' (StringPtr (CloneUrlHttp md)) d2);
          d4 = snd (d_Set ''clone_url_ssh'' (StringPtr (CloneUrlSsh md)) d3);
          d5 = snd (d_Set ''description'' (StringPtr (RepositoryDescription md)) d4);
          d6 = snd (d_Set ''repository_name'' (StringPtr (RepositoryName md)) d5)
      in if snd (d_GetOk d6 ''default_branch'') \<and> DefaultBranch md \<noteq> None
         then snd (d_Set ''default_branch'' (StringPtr (DefaultBranch md)) d6)
         else d6)"

text \<open>
  The one failure that Read does not report: \<^verbatim>\<open>GetRepository\<close> failing with the
  "repository does not exist" code. For every other failure, the text the handlers put
  in front of the error of the call; \<open>rid\<close> is the resource Id, which two of the
  messages include.
\<close>

definition not_found_on_read :: "request \<Rightarrow> go_error \<Rightarrow> bool" where
  "not_found_on_read req err =
     (is_GetRepository req \<and> isAWSErr err ErrCodeRepositoryDoesNotExistException [])"

fun error_prefix :: "request \<Rightarrow> string \<Rightarrow> string" where
  "error_prefix (CreateRepositoryInput n descr tags) rid = ''Error creating CodeCommit Repository: ''"
| "error_prefix (GetRepositoryInput n) rid = ''Error reading CodeCommit Repository: ''"
| "error_prefix (ListTagsForResourceInput arn) rid =
     ''error listing CodeCommit Repository tags for '' @ rid @ '': ''"
| "error_prefix (DeleteRepositoryInput n) rid = ''Error deleting CodeCommit Repository: ''"
| "error_prefix (UpdateRepositoryDescriptionInput n descr) rid =
     ''Error Updating Repository Description for CodeCommit Repository: ''"
| "error_prefix (ListBranchesInput n) rid = ''Error reading CodeCommit Repository branches: ''"
| "error_prefix (UpdateDefaultBranchInput n b) rid =
     ''Error Updating Default Branch for CodeCommit Repository: ''"
| "error_prefix (SetTagsCall n tags) rid =
     ''error updating CodeCommit Repository tags for '' @ rid @ '': ''"

text \<open>
  A trace reports its failures when every failed call, but a \<^verbatim>\<open>GetRepository\<close> that
  did not find the repository, is the last call of the trace and the handler returned
  its error behind the prefix of the call.
\<close>

fun surfaced :: "outcome \<Rightarrow> string \<Rightarrow> event list \<Rightarrow> bool" where
  "surfaced r rid [] = True"
| "surfaced r rid ((req, None) # evs) = surfaced r rid evs"
| "surfaced r rid ((req, Some err) # evs) =
     (if not_found_on_read req err then surfaced r rid evs
      else evs = [] \<and> r = Returned (Some (error_prefix req rid @ Error err)))"

subsection \<open>The steps of Update\<close>

text \<open>
  The three conditional steps that Update runs before it calls Read, each as the source
  writes it, under a name of its own; \<open>update_unfold\<close> below shows that Update is their
  sequence. A step returns the error message, if any, with the remote state and its
  calls.
\<close>

definition default_branch_step ::
  "'s AWSClient \<Rightarrow> ResourceData \<Rightarrow> 's \<Rightarrow> string option \<times> 's \<times> event list" where
  "default_branch_step meta d s =
     (if snd (d_GetOk d ''default_branch'') \<and> d_HasChange d ''default_branch''
      then resourceAwsCodeCommitUpdateDefaultBranch (codecommitconn meta) d s
      else (None, s, []))"

definition description_step ::
  "'s AWSClient \<Rightarrow> ResourceData \<Rightarrow> 's \<Rightarrow> string option \<times> 's \<times> event list" where
  "description_step meta d s =
     (if d_HasChange d ''description''
      then resourceAwsCodeCommitUpdateDescription (codecommitconn meta) d s
      else (None, s, []))"

definition tags_step ::
  "'s AWSClient \<Rightarrow> ResourceData \<Rightarrow> 's \<Rightarrow> string option \<times> 's \<times> event list" where
  "tags_step meta d s =
     (if \<not> d_IsNewResource d
      then (case setTagsCodeCommit meta d s of
              (Some err, s3) \<Rightarrow>
                (Some (''error updating CodeCommit Repository tags for '' @ d_Id d
                   @ '': '' @ Error err),
                 s3, [(SetTagsCall (d_Id d) (d_Get_map d ''tags''), Some err)])
            | (None, s3) \<Rightarrow>
                (None, s3, [(SetTagsCall (d_Id d) (d_Get_map d ''tags''), None)]))
      else (None, s, []))"

text \<open>
  A list of calls that all succeeded, and what a step owes its caller: no message and
  all calls succeeded, or the message of its last call, which failed.
\<close>

definition all_ok :: "event list \<Rightarrow> bool" where
  "all_ok evs = (\<forall>ev \<in> set evs. snd ev = None)"

definition reported :: "string \<Rightarrow> string option \<Rightarrow> event list \<Rightarrow> bool" where
  "reported rid r evs =
     (case r of
        None \<Rightarrow> all_ok evs
      | Some msg \<Rightarrow>
          (\<exists>ev0 req err. evs = ev0 @ [(req, Some err)] \<and> all_ok ev0 \<and> \<not> is_GetRepository req
             \<and> msg = error_prefix req rid @ Error err))"

text \<open>
  The calls of the two update helpers, and the calls of Read.
\<close>

definition is_update_request :: "request \<Rightarrow> bool" where
  "is_update_request req =
     (is_ListBranches req \<or> is_UpdateDefaultBranch req \<or> is_UpdateRepositoryDescription req)"

definition is_read_request :: "request \<Rightarrow> bool" where
  "is_read_request req = (is_GetRepository req \<or> is_ListTagsForResource req)"

subsection \<open>A scripted client and sample resource data\<close>

text \<open>
  A client whose remote state is the answer it gives to each operation, and two
  resources: one that exists, with a changed description and default branch, and one
  that is about to be created.
\<close>

record fake_remote =
  on_create :: "go_error + RepositoryMetadata option"
  on_get :: "go_error + RepositoryMetadata option"
  on_list_tags :: "go_error + cc_tags"
  on_delete :: "go_error option"
  on_update_description :: "go_error option"
  on_list_branches :: "go_error + string list"
  on_update_default_branch :: "go_error option"
  on_set_tags :: "go_error option"

definition scripted :: "fake_remote AWSClient" where
  "scripted =
     \<lparr>codecommitconn =
        \<lparr>CreateRepository = (\<lambda>name descr tags s. (on_create s, s)),
         GetRepository = (\<lambda>name s. (on_get s, s)),
         ListTagsForResource = (\<lambda>arn s. (on_list_tags s, s)),
         DeleteRepository = (\<lambda>name s. (on_delete s, s)),
         UpdateRepositoryDescription = (\<lambda>name descr s. (on_update_description s, s)),
         ListBranches = (\<lambda>name s. (on_list_branches s, s)),
         UpdateDefaultBranch = (\<lambda>name branch s. (on_update_default_branch s, s))\<rparr>,
      setTagsCodeCommit = (\<lambda>d s. (on_set_tags s, s)),
      tagsFromMapCodeCommit = (\<lambda>m k. map_option Some (m k)),
      tagsToMapCodeCommit = (\<lambda>m k. case m k of Some (Some v) \<Rightarrow> Some v | _ \<Rightarrow> None)\<rparr>"

definition demo_metadata :: RepositoryMetadata where
  "demo_metadata =
     \<lparr>Arn = Some ''arn:aws:codecommit:eu-west-1:111122223333:demo'',
      CloneUrlHttp = Some ''https://git-codecommit.eu-west-1.amazonaws.com/v1/repos/demo'',
      CloneUrlSsh = Some ''ssh://git-codecommit.eu-west-1.amazonaws.com/v1/repos/demo'',
      DefaultBranch = Some ''main'',
      RepositoryDescription = Some ''a demo'',
      RepositoryId = Some ''f7579e13'',
      RepositoryName = Some ''demo''\<rparr>"

definition healthy :: fake_remote where
  "healthy =
     \<lparr>on_create = Inr (Some demo_metadata),
      on_get = Inr (Some demo_metadata),
      on_list_tags = Inr Map.empty,
      on_delete = None,
      on_update_description = None,
      on_list_branches = Inr [''main''],
      on_update_default_branch = None,
      on_set_tags = None\<rparr>"

definition not_found :: go_error where
  "not_found = GoError ''RepositoryDoesNotExistException: demo does not exist''
     (Some (''RepositoryDoesNotExistException'', ''demo does not exist''))"

definition throttled :: go_error where
  "throttled = GoError ''ThrottlingException: Rate exceeded''
     (Some (''ThrottlingException'', ''Rate exceeded''))"

definition demo_config :: "string \<Rightarrow> string" where
  "demo_config = (\<lambda>k. [])(''repository_name'' := ''demo'', ''description'' := ''a demo'',
     ''default_branch'' := ''main'')"

definition existing_d :: ResourceData where
  "existing_d =
     \<lparr>rd_id = ''demo'', rd_new = False,
      rd_state = demo_config(''description'' := ''old text'', ''default_branch'' := ''trunk''),
      rd_diff = demo_config, rd_set = Map.empty,
      rd_state_maps = (\<lambda>k. Map.empty), rd_diff_maps = (\<lambda>k. Map.empty),
      rd_set_maps = Map.empty\<rparr>"

definition new_d :: ResourceData where
  "new_d =
     \<lparr>rd_id = [], rd_new = True,
      rd_state = (\<lambda>k. []),
      rd_diff = demo_config, rd_set = Map.empty,
      rd_state_maps = (\<lambda>k. Map.empty), rd_diff_maps = (\<lambda>k. Map.empty),
      rd_set_maps = Map.empty\<rparr>"

definition unset_branch_d :: ResourceData where
  "unset_branch_d = existing_d\<lparr>rd_state := demo_config(''default_branch'' := []),
     rd_diff := demo_config(''default_branch'' := [])\<rparr>"

section \<open>Properties\<close>

subsection \<open>The state accessors\<close>

lemma Contains_empty: "Contains m []"
  by (cases m) simp_all

lemma isAWSErr_code:
  "isAWSErr err code [] = (\<exists>m. awserr err = Some (code, m))"
  by (auto simp: isAWSErr_def Contains_empty split: option.splits)

lemma schema_keys:
  "map_of resourceAwsCodeCommitRepository_Schema key = Some sch \<Longrightarrow>
     key \<in> {''repository_name'', ''description'', ''arn'', ''repository_id'', ''clone_url_http'',
             ''clone_url_ssh'', ''default_branch'', ''tags''}"
  by (simp add: resourceAwsCodeCommitRepository_Schema_def split: if_splits)

lemma d_Set_string:
  "key \<in> {''repository_name'', ''description'', ''arn'', ''repository_id'', ''clone_url_http'',
           ''clone_url_ssh'', ''default_branch''} \<Longrightarrow>
   d_Set key (StringPtr p) d = (None, d\<lparr>rd_set := (rd_set d)(key \<mapsto> aws_StringValue p)\<rparr>)"
  by (auto simp: d_Set_def resourceAwsCodeCommitRepository_Schema_def schema_zero_def)

lemma d_Set_tags:
  "d_Set ''tags'' (TagsMap m) d = (None, d\<lparr>rd_set_maps := (rd_set_maps d)(''tags'' \<mapsto> m)\<rparr>)"
  by (simp add: d_Set_def resourceAwsCodeCommitRepository_Schema_def schema_zero_def tagsSchema_def)

lemma d_Set_frame:
  "rd_id (snd (d_Set key v d)) = rd_id d"
  "rd_new (snd (d_Set key v d)) = rd_new d"
  "rd_state (snd (d_Set key v d)) = rd_state d"
  "rd_diff (snd (d_Set key v d)) = rd_diff d"
  by (simp_all add: d_Set_def split: option.splits go_value.splits)

lemma d_Id_Set [simp]: "d_Id (snd (d_Set key v d)) = d_Id d"
  by (simp add: d_Id_def d_Set_frame)

lemma d_IsNewResource_Set [simp]: "d_IsNewResource (snd (d_Set key v d)) = d_IsNewResource d"
  by (simp add: d_IsNewResource_def d_Set_frame)

lemma d_HasChange_Set [simp]: "d_HasChange (snd (d_Set key v d)) k = d_HasChange d k"
  by (simp add: d_HasChange_def d_Set_frame)

lemma d_Get_Set_other:
  "k \<noteq> key \<Longrightarrow> d_Get (snd (d_Set key v d)) k = d_Get d k"
  by (simp add: d_Get_def d_Set_def split: option.splits go_value.splits)

lemma d_Get_Set_same:
  "key \<in> {''repository_name'', ''description'', ''arn'', ''repository_id'', ''clone_url_http'',
           ''clone_url_ssh'', ''default_branch''} \<Longrightarrow>
   d_Get (snd (d_Set key (StringPtr p) d)) key = aws_StringValue p"
  by (simp add: d_Set_string d_Get_def)

lemma d_Get_Set_tags: "d_Get (snd (d_Set key (TagsMap m) d)) k = d_Get d k"
  by (simp add: d_Get_def d_Set_def split: option.splits go_value.splits)

lemma d_Get_map_Set_string: "d_Get_map (snd (d_Set key (StringPtr p) d)) k = d_Get_map d k"
  by (simp add: d_Get_map_def d_Set_def split: option.splits go_value.splits)

lemma d_SetId_frame [simp]:
  "d_Id (d_SetId v d) = v"
  "d_IsNewResource (d_SetId v d) = d_IsNewResource d"
  "d_HasChange (d_SetId v d) k = d_HasChange d k"
  "d_Get (d_SetId v d) k = d_Get d k"
  "d_Get_map (d_SetId v d) k = d_Get_map d k"
  by (simp_all add: d_Id_def d_SetId_def d_IsNewResource_def d_HasChange_def d_Get_def d_Get_map_def
      split: option.splits)


subsection \<open>Read, one case per outcome of its calls\<close>

lemma read_get_failed:
  "GetRepository (codecommitconn meta) (d_Id d) s = (Inl err, s1) \<Longrightarrow>
   resourceAwsCodeCommitRepositoryRead meta d s =
     (if isAWSErr err ErrCodeRepositoryDoesNotExistException []
      then (Returned None, d_SetId [] d, s1, [(GetRepositoryInput (d_Id d), Some err)])
      else (Returned (Some (''Error reading CodeCommit Repository: '' @ Error err)), d, s1,
            [(GetRepositoryInput (d_Id d), Some err)]))"
  by (simp add: resourceAwsCodeCommitRepositoryRead_def)

lemma read_get_nil:
  "GetRepository (codecommitconn meta) (d_Id d) s = (Inr None, s1) \<Longrightarrow>
   resourceAwsCodeCommitRepositoryRead meta d s =
     (Panicked, d, s1, [(GetRepositoryInput (d_Id d), None)])"
  by (simp add: resourceAwsCodeCommitRepositoryRead_def)

lemma after_get_Id [simp]: "d_Id (after_get d md) = d_Id d"
  by (simp add: after_get_def Let_def)

lemma read_get_ok:
  "GetRepository (codecommitconn meta) (d_Id d) s = (Inr (Some md), s1) \<Longrightarrow>
   resourceAwsCodeCommitRepositoryRead meta d s =
     (case ListTagsForResource (codecommitconn meta) (Arn md) s1 of
        (Inl err, s2) \<Rightarrow>
          (Returned (Some (''error listing CodeCommit Repository tags for '' @ d_Id d
             @ '': '' @ Error err)),
           after_get d md, s2,
           [(GetRepositoryInput (d_Id d), None), (ListTagsForResourceInput (Arn md), Some err)])
      | (Inr Tags, s2) \<Rightarrow>
          (Returned None, snd (d_Set ''tags'' (TagsMap (tagsToMapCodeCommit meta Tags)) (after_get d md)),
           s2,
           [(GetRepositoryInput (d_Id d), None), (ListTagsForResourceInput (Arn md), None)]))"
  by (simp add: resourceAwsCodeCommitRepositoryRead_def after_get_def Let_def d_Set_tags
      del: not_None_eq split: prod.splits sum.splits)


lemma after_get_Get:
  "d_Get (after_get d md) ''repository_id'' = aws_StringValue (RepositoryId md)"
  "d_Get (after_get d md) ''arn'' = aws_StringValue (Arn md)"
  "d_Get (after_get d md) ''clone_url_http'' = aws_StringValue (CloneUrlHttp md)"
  "d_Get (after_get d md) ''clone_url_ssh'' = aws_StringValue (CloneUrlSsh md)"
  "d_Get (after_get d md) ''description'' = aws_StringValue (RepositoryDescription md)"
  "d_Get (after_get d md) ''repository_name'' = aws_StringValue (RepositoryName md)"
  by (simp_all add: after_get_def Let_def d_Get_Set_other d_Get_Set_same)


lemma read_get_ok_state:
  assumes "GetRepository (codecommitconn meta) (d_Id d) s = (Inr (Some md), s1)"
    and "resourceAwsCodeCommitRepositoryRead meta d s = (r, d', s', evs)"
  shows "d_Get d' k = d_Get (after_get d md) k"
  using assms
  by (auto simp: read_get_ok d_Get_Set_tags split: prod.splits sum.splits)


subsection \<open>Update as a sequence of steps\<close>

lemma update_unfold:
  "resourceAwsCodeCommitRepositoryUpdate meta d s =
     (case default_branch_step meta d s of
        (Some err, s1, ev1) \<Rightarrow> (Returned (Some err), d, s1, ev1)
      | (None, s1, ev1) \<Rightarrow>
          (case description_step meta d s1 of
             (Some err, s2, ev2) \<Rightarrow> (Returned (Some err), d, s2, ev1 @ ev2)
           | (None, s2, ev2) \<Rightarrow>
               (case tags_step meta d s2 of
                  (Some err, s3, ev3) \<Rightarrow> (Returned (Some err), d, s3, ev1 @ ev2 @ ev3)
                | (None, s3, ev3) \<Rightarrow>
                    (case resourceAwsCodeCommitRepositoryRead meta d s3 of
                       (r, d', s4, ev4) \<Rightarrow> (r, d', s4, ev1 @ ev2 @ ev3 @ ev4)))))"
  unfolding resourceAwsCodeCommitRepositoryUpdate_def default_branch_step_def
    description_step_def tags_step_def Let_def
  by (rule refl)

lemma all_ok_simps [simp]:
  "all_ok []"
  "all_ok ((req, e) # evs) = (e = None \<and> all_ok evs)"
  "all_ok (xs @ ys) = (all_ok xs \<and> all_ok ys)"
  by (auto simp: all_ok_def)

lemma reported_Nil [simp]: "reported rid None []"
  by (simp add: reported_def)

lemma reported_one:
  "reported rid (Some (error_prefix req rid @ Error err)) [(req, Some err)] = (\<not> is_GetRepository req)"
  by (auto simp: reported_def)

lemma default_branch_step_reported:
  "default_branch_step meta d s = (r, s1, ev) \<Longrightarrow> reported rid r ev"
  by (auto simp: default_branch_step_def resourceAwsCodeCommitUpdateDefaultBranch_def reported_def
      split: if_splits prod.splits sum.splits option.splits)

lemma description_step_reported:
  "description_step meta d s = (r, s1, ev) \<Longrightarrow> reported rid r ev"
  by (auto simp: description_step_def resourceAwsCodeCommitUpdateDescription_def reported_def
      split: if_splits prod.splits sum.splits option.splits)

lemma tags_step_reported:
  "tags_step meta d s = (r, s1, ev) \<Longrightarrow> reported (d_Id d) r ev"
  by (auto simp: tags_step_def reported_def
      split: if_splits prod.splits sum.splits option.splits)

lemma update_cases [consumes 1, case_names default_branch description tags read]:
  assumes "resourceAwsCodeCommitRepositoryUpdate meta d s = (r, d', s', evs)"
  obtains
    (default_branch) msg ev1 where
      "default_branch_step meta d s = (Some msg, s', ev1)"
      "r = Returned (Some msg)" "d' = d" "evs = ev1"
  | (description) s1 ev1 msg ev2 where
      "default_branch_step meta d s = (None, s1, ev1)"
      "description_step meta d s1 = (Some msg, s', ev2)"
      "r = Returned (Some msg)" "d' = d" "evs = ev1 @ ev2"
  | (tags) s1 ev1 s2 ev2 msg ev3 where
      "default_branch_step meta d s = (None, s1, ev1)"
      "description_step meta d s1 = (None, s2, ev2)"
      "tags_step meta d s2 = (Some msg, s', ev3)"
      "r = Returned (Some msg)" "d' = d" "evs = ev1 @ ev2 @ ev3"
  | (read) s1 ev1 s2 ev2 s3 ev3 ev4 where
      "default_branch_step meta d s = (None, s1, ev1)"
      "description_step meta d s1 = (None, s2, ev2)"
      "tags_step meta d s2 = (None, s3, ev3)"
      "resourceAwsCodeCommitRepositoryRead meta d s3 = (r, d', s', ev4)"
      "evs = ev1 @ ev2 @ ev3 @ ev4"
proof -
  obtain r1 s1 ev1 where st1: "default_branch_step meta d s = (r1, s1, ev1)"
    by (cases "default_branch_step meta d s") auto
  obtain r2 s2 ev2 where st2: "description_step meta d s1 = (r2, s2, ev2)"
    by (cases "description_step meta d s1") auto
  obtain r3 s3 ev3 where st3: "tags_step meta d s2 = (r3, s3, ev3)"
    by (cases "tags_step meta d s2") auto
  obtain r4 d4 s4 ev4 where st4: "resourceAwsCodeCommitRepositoryRead meta d s3 = (r4, d4, s4, ev4)"
    by (cases "resourceAwsCodeCommitRepositoryRead meta d s3") auto
  show thesis
  proof (cases r1)
    case (Some msg)
    with assms st1 show thesis
      by (intro default_branch [of msg ev1]) (simp_all add: update_unfold)
  next
    case n1: None
    show thesis
    proof (cases r2)
      case (Some msg)
      with assms st1 st2 n1 show thesis
        by (intro description [of s1 ev1 msg ev2]) (simp_all add: update_unfold)
    next
      case n2: None
      show thesis
      proof (cases r3)
        case (Some msg)
        with assms st1 st2 st3 n1 n2 show thesis
          by (intro tags [of s1 ev1 s2 ev2 msg ev3]) (simp_all add: update_unfold)
      next
        case n3: None
        with assms st1 st2 st3 st4 n1 n2 show thesis
          by (intro read [of s1 ev1 s2 ev2 s3 ev3 ev4]) (simp_all add: update_unfold)
      qed
    qed
  qed
qed

lemma surfaced_ok_prefix:
  "all_ok ev1 \<Longrightarrow> surfaced r rid (ev1 @ ev2) = surfaced r rid ev2"
  by (induction ev1) auto

lemma surfaced_all_ok: "all_ok evs \<Longrightarrow> surfaced r rid evs"
  using surfaced_ok_prefix [of evs r rid "[]"] by simp

lemma reported_surfaced:
  "reported rid r evs \<Longrightarrow> r = Some msg \<Longrightarrow> surfaced (Returned r) rid evs"
  by (auto simp: reported_def surfaced_ok_prefix not_found_on_read_def)

lemma surfacedD:
  "surfaced r rid evs \<Longrightarrow> evs = pre @ (req, Some err) # post \<Longrightarrow> \<not> not_found_on_read req err \<Longrightarrow>
     post = [] \<and> r = Returned (Some (error_prefix req rid @ Error err))"
proof (induction pre arbitrary: evs)
  case Nil
  then show ?case by simp
next
  case (Cons ev pre)
  obtain q e where ev: "ev = (q, e)" by (cases ev)
  show ?case
  proof (cases e)
    case None
    with Cons ev show ?thesis by auto
  next
    case (Some err')
    with Cons ev show ?thesis by (auto split: if_splits)
  qed
qed

lemma read_surfaced:
  assumes "resourceAwsCodeCommitRepositoryRead meta d s = (r, d', s', evs)"
  shows "surfaced r (d_Id d') evs"
proof (cases "GetRepository (codecommitconn meta) (d_Id d) s")
  case (Pair res s1)
  show ?thesis
  proof (cases res)
    case (Inl err)
    with Pair assms show ?thesis
      by (auto simp: read_get_failed not_found_on_read_def split: if_splits)
  next
    case (Inr out)
    show ?thesis
    proof (cases out)
      case None
      with Pair Inr assms show ?thesis
        by (auto simp: read_get_nil)
    next
      case (Some md)
      with Pair Inr assms show ?thesis
        by (auto simp: read_get_ok split: prod.splits sum.splits)
    qed
  qed
qed

lemma read_Id:
  assumes "resourceAwsCodeCommitRepositoryRead meta d s = (r, d', s', evs)"
  shows "d_Id d' = d_Id d
       \<or> (r = Returned None \<and> d_Id d' = []
           \<and> (\<exists>err. evs = [(GetRepositoryInput (d_Id d), Some err)]
                 \<and> not_found_on_read (GetRepositoryInput (d_Id d)) err))"
proof (cases "GetRepository (codecommitconn meta) (d_Id d) s")
  case (Pair res s1)
  show ?thesis
  proof (cases res)
    case (Inl err)
    with Pair assms show ?thesis
      by (auto simp: read_get_failed not_found_on_read_def split: if_splits)
  next
    case (Inr out)
    show ?thesis
    proof (cases out)
      case None
      with Pair Inr assms show ?thesis
        by (auto simp: read_get_nil)
    next
      case (Some md)
      with Pair Inr assms show ?thesis
        by (auto simp: read_get_ok split: prod.splits sum.splits)
    qed
  qed
qed

lemma read_events:
  assumes "resourceAwsCodeCommitRepositoryRead meta d s = (r, d', s', evs)"
  shows "\<exists>e rest. evs = (GetRepositoryInput (d_Id d), e) # rest
           \<and> (\<forall>ev \<in> set rest. is_ListTagsForResource (fst ev))"
proof (cases "GetRepository (codecommitconn meta) (d_Id d) s")
  case (Pair res s1)
  show ?thesis
  proof (cases res)
    case (Inl err)
    with Pair assms show ?thesis
      by (auto simp: read_get_failed split: if_splits)
  next
    case (Inr out)
    show ?thesis
    proof (cases out)
      case None
      with Pair Inr assms show ?thesis
        by (auto simp: read_get_nil)
    next
      case (Some md)
      with Pair Inr assms show ?thesis
        by (auto simp: read_get_ok split: prod.splits sum.splits)
    qed
  qed
qed

lemma delete_surfaced:
  "resourceAwsCodeCommitRepositoryDelete meta d s = (r, d', s', evs) \<Longrightarrow> surfaced r (d_Id d') evs"
  by (auto simp: resourceAwsCodeCommitRepositoryDelete_def not_found_on_read_def
      split: prod.splits option.splits)

lemma update_surfaced:
  assumes "resourceAwsCodeCommitRepositoryUpdate meta d s = (r, d', s', evs)"
  shows "surfaced r (d_Id d') evs"
  using assms
proof (cases rule: update_cases)
  case (default_branch msg ev1)
  then show ?thesis
    using default_branch_step_reported [of meta d s "Some msg" s' ev1 "d_Id d"]
    by (simp add: reported_surfaced)
next
  case (description s1 ev1 msg ev2)
  then show ?thesis
    using default_branch_step_reported [of meta d s None s1 ev1 "d_Id d"]
      description_step_reported [of meta d s1 "Some msg" s' ev2 "d_Id d"]
    by (simp add: reported_surfaced surfaced_ok_prefix reported_def)
next
  case (tags s1 ev1 s2 ev2 msg ev3)
  then show ?thesis
    using default_branch_step_reported [of meta d s None s1 ev1 "d_Id d"]
      description_step_reported [of meta d s1 None s2 ev2 "d_Id d"]
      tags_step_reported [of meta d s2 "Some msg" s' ev3]
    by (simp add: reported_surfaced surfaced_ok_prefix reported_def)
next
  case (read s1 ev1 s2 ev2 s3 ev3 ev4)
  then show ?thesis
    using default_branch_step_reported [of meta d s None s1 ev1 "d_Id d"]
      description_step_reported [of meta d s1 None s2 ev2 "d_Id d"]
      tags_step_reported [of meta d s2 None s3 ev3]
      read_surfaced [of meta d s3 r d' s' ev4]
    by (simp add: surfaced_ok_prefix reported_def)
qed

lemma create_cases [consumes 1, case_names failed nil_metadata updated]:
  assumes "resourceAwsCodeCommitRepositoryCreate meta d s = (r, d', s', evs)"
  obtains
    (failed) err where
      "CreateRepository (codecommitconn meta) (d_Get d ''repository_name'')
         (d_Get d ''description'') (tagsFromMapCodeCommit meta (d_Get_map d ''tags'')) s
       = (Inl err, s')"
      "r = Returned (Some (''Error creating CodeCommit Repository: '' @ Error err))" "d' = d"
      "evs = [(CreateRepositoryInput (d_Get d ''repository_name'') (d_Get d ''description'')
                (tagsFromMapCodeCommit meta (d_Get_map d ''tags'')), Some err)]"
  | (nil_metadata)
      "CreateRepository (codecommitconn meta) (d_Get d ''repository_name'')
         (d_Get d ''description'') (tagsFromMapCodeCommit meta (d_Get_map d ''tags'')) s
       = (Inr None, s')"
      "r = Panicked" "d' = d_SetId (d_Get d ''repository_name'') d"
      "evs = [(CreateRepositoryInput (d_Get d ''repository_name'') (d_Get d ''description'')
                (tagsFromMapCodeCommit meta (d_Get_map d ''tags'')), None)]"
  | (updated) md s1 ev where
      "CreateRepository (codecommitconn meta) (d_Get d ''repository_name'')
         (d_Get d ''description'') (tagsFromMapCodeCommit meta (d_Get_map d ''tags'')) s
       = (Inr (Some md), s1)"
      "resourceAwsCodeCommitRepositoryUpdate meta (after_create d md) s1 = (r, d', s', ev)"
      "evs = (CreateRepositoryInput (d_Get d ''repository_name'') (d_Get d ''description'')
                (tagsFromMapCodeCommit meta (d_Get_map d ''tags'')), None) # ev"
proof (cases "CreateRepository (codecommitconn meta) (d_Get d ''repository_name'')
         (d_Get d ''description'') (tagsFromMapCodeCommit meta (d_Get_map d ''tags'')) s")
  case (Pair res s1)
  show thesis
  proof (cases res)
    case (Inl err)
    with Pair assms show thesis
      by (intro failed [of err]) (auto simp: resourceAwsCodeCommitRepositoryCreate_def)
  next
    case (Inr out)
    show thesis
    proof (cases out)
      case None
      with Pair Inr assms show thesis
        by (intro nil_metadata) (auto simp: resourceAwsCodeCommitRepositoryCreate_def)
    next
      case (Some md)
      obtain r2 d2 s2 ev2 where
        u: "resourceAwsCodeCommitRepositoryUpdate meta (after_create d md) s1 = (r2, d2, s2, ev2)"
        by (cases "resourceAwsCodeCommitRepositoryUpdate meta (after_create d md) s1") auto
      with Pair Inr Some assms show thesis
        by (intro updated [of md s1 ev2])
           (auto simp: resourceAwsCodeCommitRepositoryCreate_def after_create_def Let_def)
    qed
  qed
qed

lemma create_surfaced:
  assumes "resourceAwsCodeCommitRepositoryCreate meta d s = (r, d', s', evs)"
  shows "surfaced r (d_Id d') evs"
  using assms
proof (cases rule: create_cases)
  case (failed err)
  then show ?thesis by (simp add: not_found_on_read_def)
next
  case nil_metadata
  then show ?thesis by simp
next
  case (updated md s1 ev)
  then show ?thesis by (simp add: update_surfaced)
qed

subsection \<open>The calls of each step\<close>

lemma default_branch_step_kinds:
  "default_branch_step meta d s = (r, s1, ev) \<Longrightarrow>
     \<forall>e \<in> set ev. is_ListBranches (fst e) \<or> is_UpdateDefaultBranch (fst e)"
  by (auto simp: default_branch_step_def resourceAwsCodeCommitUpdateDefaultBranch_def
      split: if_splits prod.splits sum.splits option.splits)

lemma description_step_kinds:
  "description_step meta d s = (r, s1, ev) \<Longrightarrow> \<forall>e \<in> set ev. is_UpdateRepositoryDescription (fst e)"
  by (auto simp: description_step_def resourceAwsCodeCommitUpdateDescription_def
      split: if_splits prod.splits option.splits)

lemma tags_step_events:
  "tags_step meta d s = (r, s1, ev) \<Longrightarrow>
     (if d_IsNewResource d then ev = [] \<and> r = None \<and> s1 = s
      else \<exists>e. ev = [(SetTagsCall (d_Id d) (d_Get_map d ''tags''), e)]
             \<and> setTagsCodeCommit meta d s = (e, s1)
             \<and> r = map_option (\<lambda>err. ''error updating CodeCommit Repository tags for '' @ d_Id d
                      @ '': '' @ Error err) e)"
  by (auto simp: tags_step_def split: if_splits prod.splits option.splits)

lemma tags_step_kinds:
  "tags_step meta d s = (r, s1, ev) \<Longrightarrow> \<forall>e \<in> set ev. is_SetTags (fst e)"
  by (auto simp: tags_step_def split: if_splits prod.splits option.splits)

lemma read_kinds:
  "resourceAwsCodeCommitRepositoryRead meta d s = (r, d', s', evs) \<Longrightarrow>
     \<forall>e \<in> set evs. is_read_request (fst e)"
  by (drule read_events) (auto simp: is_read_request_def)

lemma reported_failed_last:
  "reported rid (Some msg) evs \<Longrightarrow> \<exists>req err. (req, Some err) \<in> set evs"
  by (force simp: reported_def)

lemma default_branch_step_shape:
  assumes "snd (d_GetOk d ''default_branch'')" and "d_HasChange d ''default_branch''"
    and "default_branch_step meta d s = (r1, s1, ev1)"
  shows "(\<exists>err. ListBranches (codecommitconn meta) (d_Id d) s = (Inl err, s1)
            \<and> ev1 = [(ListBranchesInput (d_Id d), Some err)])
       \<or> (ListBranches (codecommitconn meta) (d_Id d) s = (Inr [], s1)
            \<and> ev1 = [(ListBranchesInput (d_Id d), None)])
       \<or> (\<exists>bs t e. ListBranches (codecommitconn meta) (d_Id d) s = (Inr bs, t) \<and> bs \<noteq> []
            \<and> ev1 = [(ListBranchesInput (d_Id d), None),
                      (UpdateDefaultBranchInput (d_Id d) (d_Get d ''default_branch''), e)])"
proof (cases "ListBranches (codecommitconn meta) (d_Id d) s")
  case (Pair res t)
  show ?thesis
  proof (cases res)
    case (Inl err)
    with Pair assms show ?thesis
      by (simp add: default_branch_step_def resourceAwsCodeCommitUpdateDefaultBranch_def)
  next
    case (Inr bs)
    show ?thesis
    proof (cases "bs = []")
      case True
      with Pair Inr assms show ?thesis
        by (simp add: default_branch_step_def resourceAwsCodeCommitUpdateDefaultBranch_def)
    next
      case False
      obtain e u where
        u: "UpdateDefaultBranch (codecommitconn meta) (d_Id d) (d_Get d ''default_branch'') t = (e, u)"
        by (cases "UpdateDefaultBranch (codecommitconn meta) (d_Id d) (d_Get d ''default_branch'') t")
      have "ev1 = [(ListBranchesInput (d_Id d), None),
                   (UpdateDefaultBranchInput (d_Id d) (d_Get d ''default_branch''), e)]"
        using Pair Inr False assms u
        by (cases e)
           (simp_all add: default_branch_step_def resourceAwsCodeCommitUpdateDefaultBranch_def)
      with Pair Inr False show ?thesis by simp
    qed
  qed
qed

lemma default_branch_events:
  assumes "snd (d_GetOk d ''default_branch'')" and "d_HasChange d ''default_branch''"
    and "default_branch_step meta d s = (r1, s1, ev1)"
  shows "\<exists>e rest. ev1 = (ListBranchesInput (d_Id d), e) # rest
           \<and> (\<forall>ev \<in> set rest. fst ev = UpdateDefaultBranchInput (d_Id d) (d_Get d ''default_branch''))"
    and "(\<exists>req e. is_UpdateDefaultBranch req \<and> (req, e) \<in> set ev1) =
         (\<exists>bs t. ListBranches (codecommitconn meta) (d_Id d) s = (Inr bs, t) \<and> bs \<noteq> [])"
proof -
  note shape = default_branch_step_shape [OF assms]
  from shape show "\<exists>e rest. ev1 = (ListBranchesInput (d_Id d), e) # rest
           \<and> (\<forall>ev \<in> set rest. fst ev = UpdateDefaultBranchInput (d_Id d) (d_Get d ''default_branch''))"
    by (elim disjE exE conjE) simp_all
  from shape show "(\<exists>req e. is_UpdateDefaultBranch req \<and> (req, e) \<in> set ev1) =
         (\<exists>bs t. ListBranches (codecommitconn meta) (d_Id d) s = (Inr bs, t) \<and> bs \<noteq> [])"
  proof (elim disjE exE conjE)
    fix err
    assume "ListBranches (codecommitconn meta) (d_Id d) s = (Inl err, s1)"
      and "ev1 = [(ListBranchesInput (d_Id d), Some err)]"
    then show ?thesis by auto
  next
    assume "ListBranches (codecommitconn meta) (d_Id d) s = (Inr [], s1)"
      and "ev1 = [(ListBranchesInput (d_Id d), None)]"
    then show ?thesis by auto
  next
    fix bs t e
    assume lb: "ListBranches (codecommitconn meta) (d_Id d) s = (Inr bs, t)" "bs \<noteq> []"
      and ev: "ev1 = [(ListBranchesInput (d_Id d), None),
                      (UpdateDefaultBranchInput (d_Id d) (d_Get d ''default_branch''), e)]"
    have "is_UpdateDefaultBranch (UpdateDefaultBranchInput (d_Id d) (d_Get d ''default_branch''))
        \<and> (UpdateDefaultBranchInput (d_Id d) (d_Get d ''default_branch''), e) \<in> set ev1"
      using ev by simp
    then have "\<exists>req e. is_UpdateDefaultBranch req \<and> (req, e) \<in> set ev1"
      by blast
    moreover have "\<exists>bs t. ListBranches (codecommitconn meta) (d_Id d) s = (Inr bs, t) \<and> bs \<noteq> []"
      using lb by blast
    ultimately show ?thesis by simp
  qed
qed

lemma update_events:
  assumes "resourceAwsCodeCommitRepositoryUpdate meta d s = (r, d', s', evs)"
  obtains r1 s1 ev1 rest where
    "default_branch_step meta d s = (r1, s1, ev1)" "evs = ev1 @ rest"
    "\<forall>ev \<in> set rest. is_UpdateRepositoryDescription (fst ev) \<or> is_SetTags (fst ev)
        \<or> is_read_request (fst ev)"
  using assms
proof (cases rule: update_cases)
  case (default_branch msg ev1)
  then show ?thesis by (intro that [of "Some msg" s' ev1 "[]"]) auto
next
  case (description s1 ev1 msg ev2)
  then show ?thesis
    using description_step_kinds [of meta d s1 "Some msg" s' ev2]
    by (intro that [of None s1 ev1 ev2]) auto
next
  case (tags s1 ev1 s2 ev2 msg ev3)
  then show ?thesis
    using description_step_kinds [of meta d s1 None s2 ev2]
      tags_step_kinds [of meta d s2 "Some msg" s' ev3]
    by (intro that [of None s1 ev1 "ev2 @ ev3"]) auto
next
  case (read s1 ev1 s2 ev2 s3 ev3 ev4)
  then show ?thesis
    using description_step_kinds [of meta d s1 None s2 ev2]
      tags_step_kinds [of meta d s2 None s3 ev3]
      read_kinds [of meta d s3 r d' s' ev4]
    by (intro that [of None s1 ev1 "ev2 @ ev3 @ ev4"]) auto
qed

lemma update_default_branch_empty:
  "ListBranches conn (d_Id d) s = (Inr [], s1) \<Longrightarrow>
   resourceAwsCodeCommitUpdateDefaultBranch conn d s =
     (None, s1, [(ListBranchesInput (d_Id d), None)])"
  by (simp add: resourceAwsCodeCommitUpdateDefaultBranch_def)

lemma update_after_empty_branch_list:
  assumes "snd (d_GetOk d ''default_branch'')" and "d_HasChange d ''default_branch''"
    and "ListBranches (codecommitconn meta) (d_Id d) s = (Inr [], t)"
  shows "resourceAwsCodeCommitRepositoryUpdate meta d s =
     (case description_step meta d t of
        (Some err, s2, ev2) \<Rightarrow>
          (Returned (Some err), d, s2, (ListBranchesInput (d_Id d), None) # ev2)
      | (None, s2, ev2) \<Rightarrow>
          (case tags_step meta d s2 of
             (Some err, s3, ev3) \<Rightarrow>
               (Returned (Some err), d, s3, (ListBranchesInput (d_Id d), None) # ev2 @ ev3)
           | (None, s3, ev3) \<Rightarrow>
               (case resourceAwsCodeCommitRepositoryRead meta d s3 of
                  (r, d', s4, ev4) \<Rightarrow>
                    (r, d', s4, (ListBranchesInput (d_Id d), None) # ev2 @ ev3 @ ev4))))"
proof -
  have "default_branch_step meta d s = (None, t, [(ListBranchesInput (d_Id d), None)])"
    using assms by (simp add: default_branch_step_def update_default_branch_empty)
  then show ?thesis
    by (simp add: update_unfold split: prod.splits option.splits)
qed

subsection \<open>From Create to Update to Read\<close>

lemma default_branch_step_failed:
  assumes "default_branch_step meta d s = (Some msg, s1, ev)"
  shows "\<exists>req err. (req, Some err) \<in> set ev \<and> is_update_request req"
proof -
  from default_branch_step_reported [OF assms, of "d_Id d"]
  obtain req err where m: "(req, Some err) \<in> set ev"
    using reported_failed_last by blast
  from bspec [OF default_branch_step_kinds [OF assms] m] have "is_update_request req"
    by (auto simp: is_update_request_def)
  with m show ?thesis by blast
qed

lemma description_step_failed:
  assumes "description_step meta d s = (Some msg, s1, ev)"
  shows "\<exists>req err. (req, Some err) \<in> set ev \<and> is_update_request req"
proof -
  from description_step_reported [OF assms, of "d_Id d"]
  obtain req err where m: "(req, Some err) \<in> set ev"
    using reported_failed_last by blast
  from bspec [OF description_step_kinds [OF assms] m] have "is_update_request req"
    by (auto simp: is_update_request_def)
  with m show ?thesis by blast
qed

lemma tags_step_failed:
  assumes "tags_step meta d s = (Some msg, s1, ev)"
  shows "\<exists>req err. (req, Some err) \<in> set ev \<and> is_SetTags req"
proof -
  from tags_step_reported [OF assms]
  obtain req err where m: "(req, Some err) \<in> set ev"
    using reported_failed_last by blast
  from bspec [OF tags_step_kinds [OF assms] m] have "is_SetTags req"
    by simp
  with m show ?thesis by blast
qed

lemma step_kinds_update:
  "default_branch_step meta d s = (r, s1, ev) \<Longrightarrow> \<forall>e \<in> set ev. is_update_request (fst e)"
  "description_step meta d s = (r, s1, ev) \<Longrightarrow> \<forall>e \<in> set ev. is_update_request (fst e)"
  using default_branch_step_kinds [of meta d s r s1 ev] description_step_kinds [of meta d s r s1 ev]
  by (auto simp: is_update_request_def)

lemma step_all_ok:
  "default_branch_step meta d s = (None, s1, ev) \<Longrightarrow> all_ok ev"
  "description_step meta d s = (None, s1, ev) \<Longrightarrow> all_ok ev"
  "tags_step meta d s = (None, s1, ev) \<Longrightarrow> all_ok ev"
  using default_branch_step_reported [of meta d s None s1 ev "d_Id d"]
    description_step_reported [of meta d s None s1 ev "d_Id d"]
    tags_step_reported [of meta d s None s1 ev]
  by (simp_all add: reported_def)

lemma create_then_update:
  assumes "CreateRepository (codecommitconn meta) (d_Get d ''repository_name'')
             (d_Get d ''description'') (tagsFromMapCodeCommit meta (d_Get_map d ''tags'')) s
           = (Inr (Some md), s1)"
  shows "resourceAwsCodeCommitRepositoryCreate meta d s =
           (case resourceAwsCodeCommitRepositoryUpdate meta (after_create d md) s1 of
              (r, d', s', ev) \<Rightarrow>
                (r, d', s',
                 (CreateRepositoryInput (d_Get d ''repository_name'') (d_Get d ''description'')
                    (tagsFromMapCodeCommit meta (d_Get_map d ''tags'')), None) # ev))"
  using assms
  by (simp add: resourceAwsCodeCommitRepositoryCreate_def after_create_def Let_def)

lemma update_then_read:
  assumes "resourceAwsCodeCommitRepositoryUpdate meta d s = (r, d', s', evs)"
    and "\<forall>ev \<in> set evs. is_update_request (fst ev) \<or> is_SetTags (fst ev) \<longrightarrow> snd ev = None"
  shows "\<exists>ev0 s0 ev1. evs = ev0 @ ev1 \<and> all_ok ev0
           \<and> (\<forall>ev \<in> set ev0. is_update_request (fst ev) \<or> is_SetTags (fst ev))
           \<and> resourceAwsCodeCommitRepositoryRead meta d s0 = (r, d', s', ev1)"
  using assms(1)
proof (cases rule: update_cases)
  case (default_branch msg ev1)
  from default_branch_step_failed [OF default_branch(1)] obtain req err where
    m: "(req, Some err) \<in> set ev1" "is_update_request req"
    by blast
  from m(1) default_branch(4) have "(req, Some err) \<in> set evs"
    by simp
  from bspec [OF assms(2) this] m(2) have False
    by simp
  then show ?thesis ..
next
  case (description s1 ev1 msg ev2)
  from description_step_failed [OF description(2)] obtain req err where
    m: "(req, Some err) \<in> set ev2" "is_update_request req"
    by blast
  from m(1) description(5) have "(req, Some err) \<in> set evs"
    by simp
  from bspec [OF assms(2) this] m(2) have False
    by simp
  then show ?thesis ..
next
  case (tags s1 ev1 s2 ev2 msg ev3)
  from tags_step_failed [OF tags(3)] obtain req err where
    m: "(req, Some err) \<in> set ev3" "is_SetTags req"
    by blast
  from m(1) tags(6) have "(req, Some err) \<in> set evs"
    by simp
  from bspec [OF assms(2) this] m(2) have False
    by simp
  then show ?thesis ..
next
  case (read s1 ev1 s2 ev2 s3 ev3 ev4)
  have ok: "all_ok (ev1 @ ev2 @ ev3)"
    using step_all_ok(1) [OF read(1)] step_all_ok(2) [OF read(2)] step_all_ok(3) [OF read(3)]
    by simp
  have kinds: "\<forall>ev \<in> set (ev1 @ ev2 @ ev3). is_update_request (fst ev) \<or> is_SetTags (fst ev)"
    using step_kinds_update(1) [OF read(1)] step_kinds_update(2) [OF read(2)]
      tags_step_kinds [OF read(3)]
    by auto
  have "evs = (ev1 @ ev2 @ ev3) @ ev4"
    using read(5) by simp
  with ok kinds read(4) show ?thesis
    by (intro exI [of _ "ev1 @ ev2 @ ev3"] exI [of _ s3] exI [of _ ev4]) simp
qed

lemma update_nil_then_read:
  assumes "resourceAwsCodeCommitRepositoryUpdate meta d s = (Returned None, d', s', evs)"
  shows "\<exists>ev0 s0 ev1. evs = ev0 @ ev1 \<and> all_ok ev0
           \<and> (\<forall>ev \<in> set ev0. is_update_request (fst ev) \<or> is_SetTags (fst ev))
           \<and> resourceAwsCodeCommitRepositoryRead meta d s0 = (Returned None, d', s', ev1)"
  using assms
proof (cases rule: update_cases)
  case (read s1 ev1 s2 ev2 s3 ev3 ev4)
  have ok: "all_ok (ev1 @ ev2 @ ev3)"
    using step_all_ok(1) [OF read(1)] step_all_ok(2) [OF read(2)] step_all_ok(3) [OF read(3)]
    by simp
  have kinds: "\<forall>ev \<in> set (ev1 @ ev2 @ ev3). is_update_request (fst ev) \<or> is_SetTags (fst ev)"
    using step_kinds_update(1) [OF read(1)] step_kinds_update(2) [OF read(2)]
      tags_step_kinds [OF read(3)]
    by auto
  have "evs = (ev1 @ ev2 @ ev3) @ ev4"
    using read(5) by simp
  with ok kinds read(4) show ?thesis
    by (intro exI [of _ "ev1 @ ev2 @ ev3"] exI [of _ s3] exI [of _ ev4]) simp
qed simp_all

lemma create_nil_then_read:
  assumes "resourceAwsCodeCommitRepositoryCreate meta d s = (Returned None, d', s', evs)"
  shows "\<exists>md s1 ev0 s0 ev1.
           CreateRepository (codecommitconn meta) (d_Get d ''repository_name'')
             (d_Get d ''description'') (tagsFromMapCodeCommit meta (d_Get_map d ''tags'')) s
           = (Inr (Some md), s1)
         \<and> evs = (CreateRepositoryInput (d_Get d ''repository_name'') (d_Get d ''description'')
                    (tagsFromMapCodeCommit meta (d_Get_map d ''tags'')), None) # ev0 @ ev1
         \<and> all_ok ev0
         \<and> (\<forall>ev \<in> set ev0. is_update_request (fst ev) \<or> is_SetTags (fst ev))
         \<and> resourceAwsCodeCommitRepositoryRead meta (after_create d md) s0
             = (Returned None, d', s', ev1)"
  using assms
proof (cases rule: create_cases)
  case (updated md s1 ev)
  from update_nil_then_read [OF updated(2)] obtain ev0 s0 ev1 where
    "ev = ev0 @ ev1" "all_ok ev0"
    "\<forall>ev \<in> set ev0. is_update_request (fst ev) \<or> is_SetTags (fst ev)"
    "resourceAwsCodeCommitRepositoryRead meta (after_create d md) s0 = (Returned None, d', s', ev1)"
    by blast
  with updated(1,3) show ?thesis by blast
qed simp_all

lemma after_create_frame [simp]:
  "d_Id (after_create d md) = d_Get d ''repository_name''"
  "d_IsNewResource (after_create d md) = d_IsNewResource d"
  by (simp_all add: after_create_def Let_def)

lemma delete_events:
  "resourceAwsCodeCommitRepositoryDelete meta d s = (r, d', s', evs) \<Longrightarrow>
     \<exists>e. evs = [(DeleteRepositoryInput (d_Id d), e)]"
  by (auto simp: resourceAwsCodeCommitRepositoryDelete_def split: prod.splits option.splits)

lemma create_nil_Id:
  assumes "resourceAwsCodeCommitRepositoryCreate meta d s = (Returned None, d', s', evs)"
  shows "d_Id d' = d_Get d ''repository_name''
       \<or> (d_Id d' = []
           \<and> (\<exists>pre err. evs = pre @ [(GetRepositoryInput (d_Get d ''repository_name''), Some err)]
                 \<and> not_found_on_read (GetRepositoryInput (d_Get d ''repository_name'')) err))"
proof -
  from create_nil_then_read [OF assms] obtain md s1 ev0 s0 ev1 where
    evs: "evs = (CreateRepositoryInput (d_Get d ''repository_name'') (d_Get d ''description'')
                    (tagsFromMapCodeCommit meta (d_Get_map d ''tags'')), None) # ev0 @ ev1"
    and rd: "resourceAwsCodeCommitRepositoryRead meta (after_create d md) s0
             = (Returned None, d', s', ev1)"
    by blast
  from read_Id [OF rd] show ?thesis
  proof
    assume "d_Id d' = d_Id (after_create d md)"
    then show ?thesis by simp
  next
    assume "Returned None = Returned None \<and> d_Id d' = []
      \<and> (\<exists>err. ev1 = [(GetRepositoryInput (d_Id (after_create d md)), Some err)]
            \<and> not_found_on_read (GetRepositoryInput (d_Id (after_create d md))) err)"
    then obtain err where c: "d_Id d' = []"
      "ev1 = [(GetRepositoryInput (d_Get d ''repository_name''), Some err)]"
      "not_found_on_read (GetRepositoryInput (d_Get d ''repository_name'')) err"
      by auto
    let ?pre = "(CreateRepositoryInput (d_Get d ''repository_name'') (d_Get d ''description'')
                    (tagsFromMapCodeCommit meta (d_Get_map d ''tags'')), None) # ev0"
    have "evs = ?pre @ [(GetRepositoryInput (d_Get d ''repository_name''), Some err)]"
      using evs c(2) by simp
    with c(1,3) show ?thesis by blast
  qed
qed

subsection \<open>The tag helper in Update\<close>

lemma kinds_disjoint:
  "is_update_request req \<Longrightarrow> \<not> is_SetTags req"
  "is_read_request req \<Longrightarrow> \<not> is_SetTags req"
  "is_update_request req \<Longrightarrow> \<not> is_CreateRepository req"
  "is_read_request req \<Longrightarrow> \<not> is_CreateRepository req"
  "is_SetTags req \<Longrightarrow> \<not> is_CreateRepository req"
  by (cases req; simp add: is_update_request_def is_read_request_def)+

lemma no_tags_update:
  "\<forall>e \<in> set ev. is_update_request (fst e) \<Longrightarrow> \<forall>e \<in> set ev. \<not> is_SetTags (fst e)"
  using kinds_disjoint(1) by blast

lemma no_tags_read:
  "\<forall>e \<in> set ev. is_read_request (fst e) \<Longrightarrow> \<forall>e \<in> set ev. \<not> is_SetTags (fst e)"
  using kinds_disjoint(2) by blast

lemma update_kinds:
  assumes "resourceAwsCodeCommitRepositoryUpdate meta d s = (r, d', s', evs)"
  shows "\<forall>ev \<in> set evs. is_update_request (fst ev) \<or> is_SetTags (fst ev) \<or> is_read_request (fst ev)"
  using assms
proof (cases rule: update_cases)
  case (default_branch msg ev1)
  then show ?thesis
    using step_kinds_update(1) [OF default_branch(1)] by simp
next
  case (description s1 ev1 msg ev2)
  then show ?thesis
    using step_kinds_update(1) [OF description(1)] step_kinds_update(2) [OF description(2)]
    by auto
next
  case (tags s1 ev1 s2 ev2 msg ev3)
  then show ?thesis
    using step_kinds_update(1) [OF tags(1)] step_kinds_update(2) [OF tags(2)]
      tags_step_kinds [OF tags(3)]
    by auto
next
  case (read s1 ev1 s2 ev2 s3 ev3 ev4)
  then show ?thesis
    using step_kinds_update(1) [OF read(1)] step_kinds_update(2) [OF read(2)]
      tags_step_kinds [OF read(3)] read_kinds [OF read(4)]
    by auto
qed

lemma update_new_no_tags:
  assumes "resourceAwsCodeCommitRepositoryUpdate meta d s = (r, d', s', evs)"
    and "d_IsNewResource d"
  shows "\<forall>ev \<in> set evs. \<not> is_SetTags (fst ev)"
  using assms(1)
proof (cases rule: update_cases)
  case (default_branch msg ev1)
  then show ?thesis
    using no_tags_update [OF step_kinds_update(1) [OF default_branch(1)]] by simp
next
  case (description s1 ev1 msg ev2)
  then show ?thesis
    using no_tags_update [OF step_kinds_update(1) [OF description(1)]]
      no_tags_update [OF step_kinds_update(2) [OF description(2)]]
    by auto
next
  case (tags s1 ev1 s2 ev2 msg ev3)
  from tags_step_events [OF tags(3)] assms(2) have False by simp
  then show ?thesis ..
next
  case (read s1 ev1 s2 ev2 s3 ev3 ev4)
  from tags_step_events [OF read(3)] assms(2) have "ev3 = []" by simp
  with read show ?thesis
    using no_tags_update [OF step_kinds_update(1) [OF read(1)]]
      no_tags_update [OF step_kinds_update(2) [OF read(2)]]
      no_tags_read [OF read_kinds [OF read(4)]]
    by auto
qed

lemma create_new_tags_once:
  assumes "resourceAwsCodeCommitRepositoryCreate meta d s = (r, d', s', evs)"
    and "d_IsNewResource d"
  shows "\<exists>e rest.
           evs = (CreateRepositoryInput (d_Get d ''repository_name'') (d_Get d ''description'')
                    (tagsFromMapCodeCommit meta (d_Get_map d ''tags'')), e) # rest
           \<and> (\<forall>ev \<in> set rest. \<not> is_SetTags (fst ev) \<and> \<not> is_CreateRepository (fst ev))"
  using assms(1)
proof (cases rule: create_cases)
  case (failed err)
  then show ?thesis by simp
next
  case nil_metadata
  then show ?thesis by simp
next
  case (updated md s1 ev)
  have new: "d_IsNewResource (after_create d md)"
    using assms(2) by simp
  have a: "\<forall>e \<in> set ev. \<not> is_SetTags (fst e)"
    by (rule update_new_no_tags [OF updated(2) new])
  have b: "\<forall>e \<in> set ev. \<not> is_CreateRepository (fst e)"
    using update_kinds [OF updated(2)] kinds_disjoint(3,4,5) by blast
  from a b have "\<forall>e \<in> set ev. \<not> is_SetTags (fst e) \<and> \<not> is_CreateRepository (fst e)"
    by simp
  with updated(3) show ?thesis by simp
qed

lemma update_existing_tags:
  assumes "resourceAwsCodeCommitRepositoryUpdate meta d s = (r, d', s', evs)"
    and "\<not> d_IsNewResource d"
    and "\<forall>ev \<in> set evs. is_update_request (fst ev) \<longrightarrow> snd ev = None"
  shows "\<exists>ev0 e ev1.
           evs = ev0 @ (SetTagsCall (d_Id d) (d_Get_map d ''tags''), e) # ev1
           \<and> (\<forall>ev \<in> set ev0. is_update_request (fst ev))
           \<and> (\<forall>ev \<in> set ev1. is_read_request (fst ev))
           \<and> (\<forall>err. e = Some err \<longrightarrow>
                 ev1 = [] \<and> d' = d
                 \<and> r = Returned (Some (''error updating CodeCommit Repository tags for '' @ d_Id d
                          @ '': '' @ Error err)))"
  using assms(1)
proof (cases rule: update_cases)
  case (default_branch msg ev1)
  from default_branch_step_failed [OF default_branch(1)] obtain req err where
    m: "(req, Some err) \<in> set ev1" "is_update_request req"
    by blast
  from m(1) default_branch(4) have "(req, Some err) \<in> set evs"
    by simp
  from bspec [OF assms(3) this] m(2) have False
    by simp
  then show ?thesis ..
next
  case (description s1 ev1 msg ev2)
  from description_step_failed [OF description(2)] obtain req err where
    m: "(req, Some err) \<in> set ev2" "is_update_request req"
    by blast
  from m(1) description(5) have "(req, Some err) \<in> set evs"
    by simp
  from bspec [OF assms(3) this] m(2) have False
    by simp
  then show ?thesis ..
next
  case (tags s1 ev1 s2 ev2 msg ev3)
  from tags_step_events [OF tags(3)] assms(2) obtain e where
    e: "ev3 = [(SetTagsCall (d_Id d) (d_Get_map d ''tags''), e)]"
    "Some msg = map_option (\<lambda>err. ''error updating CodeCommit Repository tags for '' @ d_Id d
                      @ '': '' @ Error err) e"
    by auto
  have k: "\<forall>ev \<in> set (ev1 @ ev2). is_update_request (fst ev)"
    using step_kinds_update(1) [OF tags(1)] step_kinds_update(2) [OF tags(2)] by auto
  have evs: "evs = (ev1 @ ev2) @ (SetTagsCall (d_Id d) (d_Get_map d ''tags''), e) # []"
    using tags(6) e(1) by simp
  have w: "\<forall>err. e = Some err \<longrightarrow>
                 [] = ([] :: event list) \<and> d' = d
                 \<and> r = Returned (Some (''error updating CodeCommit Repository tags for '' @ d_Id d
                          @ '': '' @ Error err))"
    using e(2) tags(4,5) by auto
  from evs k w show ?thesis
    by (intro exI [of _ "ev1 @ ev2"] exI [of _ e] exI [of _ "[]"]) simp
next
  case (read s1 ev1 s2 ev2 s3 ev3 ev4)
  from tags_step_events [OF read(3)] assms(2) obtain e where
    e: "ev3 = [(SetTagsCall (d_Id d) (d_Get_map d ''tags''), e)]"
    "None = map_option (\<lambda>err. ''error updating CodeCommit Repository tags for '' @ d_Id d
                      @ '': '' @ Error err) e"
    by auto
  from e(2) have none: "e = None" by simp
  have k: "\<forall>ev \<in> set (ev1 @ ev2). is_update_request (fst ev)"
    using step_kinds_update(1) [OF read(1)] step_kinds_update(2) [OF read(2)] by auto
  have evs: "evs = (ev1 @ ev2) @ (SetTagsCall (d_Id d) (d_Get_map d ''tags''), e) # ev4"
    using read(5) e(1) by simp
  from evs k read_kinds [OF read(4)] none show ?thesis
    by (intro exI [of _ "ev1 @ ev2"] exI [of _ e] exI [of _ ev4]) simp
qed

subsection \<open>The scripted client\<close>

lemma scripted_conn [simp]:
  "CreateRepository (codecommitconn scripted) n descr tags s = (on_create s, s)"
  "GetRepository (codecommitconn scripted) n s = (on_get s, s)"
  "ListTagsForResource (codecommitconn scripted) arn s = (on_list_tags s, s)"
  "DeleteRepository (codecommitconn scripted) n s = (on_delete s, s)"
  "UpdateRepositoryDescription (codecommitconn scripted) n descr s = (on_update_description s, s)"
  "ListBranches (codecommitconn scripted) n s = (on_list_branches s, s)"
  "UpdateDefaultBranch (codecommitconn scripted) n b s = (on_update_default_branch s, s)"
  "setTagsCodeCommit scripted d s = (on_set_tags s, s)"
  by (simp_all add: scripted_def)

lemma handled_eta: "h = (fst h, fst (snd h), fst (snd (snd h)), snd (snd (snd h)))"
  by simp

lemmas run_simps =
  update_unfold default_branch_step_def description_step_def tags_step_def
  resourceAwsCodeCommitUpdateDefaultBranch_def resourceAwsCodeCommitUpdateDescription_def
  resourceAwsCodeCommitRepositoryRead_def resourceAwsCodeCommitRepositoryCreate_def
  resourceAwsCodeCommitRepositoryDelete_def Let_def
  d_GetOk_def d_Get_def d_Get_map_def d_HasChange_def d_IsNewResource_def d_Id_def d_SetId_def
  d_Set_string d_Set_tags aws_StringValue_def isAWSErr_def
  ErrCodeRepositoryDoesNotExistException_def
  existing_d_def new_d_def unset_branch_d_def demo_config_def healthy_def demo_metadata_def
  throttled_def not_found_def

lemma run_update_tags_listing_fails:
  "fst (resourceAwsCodeCommitRepositoryUpdate scripted existing_d
          (healthy\<lparr>on_list_tags := Inl throttled\<rparr>)) =
     Returned (Some ''error listing CodeCommit Repository tags for demo: ThrottlingException: Rate exceeded'')"
  "d_Id (fst (snd (resourceAwsCodeCommitRepositoryUpdate scripted existing_d
          (healthy\<lparr>on_list_tags := Inl throttled\<rparr>)))) = ''demo''"
  "snd (snd (snd (resourceAwsCodeCommitRepositoryUpdate scripted existing_d
          (healthy\<lparr>on_list_tags := Inl throttled\<rparr>)))) =
     [(ListBranchesInput ''demo'', None),
      (UpdateDefaultBranchInput ''demo'' ''main'', None),
      (UpdateRepositoryDescriptionInput ''demo'' ''a demo'', None),
      (SetTagsCall ''demo'' Map.empty, None),
      (GetRepositoryInput ''demo'', None),
      (ListTagsForResourceInput (Some ''arn:aws:codecommit:eu-west-1:111122223333:demo''),
       Some throttled)]"
  by (simp_all add: run_simps)

lemma run_create_healthy:
  "fst (resourceAwsCodeCommitRepositoryCreate scripted new_d healthy) = Returned None"
  by (simp add: run_simps)

lemma run_update_healthy:
  "snd (snd (snd (resourceAwsCodeCommitRepositoryUpdate scripted existing_d healthy))) =
     [(ListBranchesInput ''demo'', None),
      (UpdateDefaultBranchInput ''demo'' ''main'', None),
      (UpdateRepositoryDescriptionInput ''demo'' ''a demo'', None),
      (SetTagsCall ''demo'' Map.empty, None),
      (GetRepositoryInput ''demo'', None),
      (ListTagsForResourceInput (Some ''arn:aws:codecommit:eu-west-1:111122223333:demo''), None)]"
  by (simp add: run_simps)

lemma run_create_not_found:
  "fst (resourceAwsCodeCommitRepositoryCreate scripted new_d (healthy\<lparr>on_get := Inl not_found\<rparr>))
     = Returned None"
  "d_Id (fst (snd (resourceAwsCodeCommitRepositoryCreate scripted new_d
     (healthy\<lparr>on_get := Inl not_found\<rparr>)))) = []"
  "snd (snd (snd (resourceAwsCodeCommitRepositoryCreate scripted new_d
     (healthy\<lparr>on_get := Inl not_found\<rparr>)))) =
     [(CreateRepositoryInput ''demo'' ''a demo'' Map.empty, None),
      (ListBranchesInput ''demo'', None),
      (UpdateDefaultBranchInput ''demo'' ''main'', None),
      (UpdateRepositoryDescriptionInput ''demo'' ''a demo'', None),
      (GetRepositoryInput ''demo'', Some not_found)]"
  by (simp_all add: run_simps scripted_def)

lemma new_d_name: "d_Get new_d ''repository_name'' = ''demo''"
  by (simp add: d_Get_def new_d_def demo_config_def)

lemma run_create_healthy_Id:
  "d_Id (fst (snd (resourceAwsCodeCommitRepositoryCreate scripted new_d healthy))) = ''demo''"
  by (simp add: run_simps)

lemma run_update_description_fails:
  "fst (resourceAwsCodeCommitRepositoryUpdate scripted existing_d
          (healthy\<lparr>on_update_description := Some throttled\<rparr>)) =
     Returned (Some ''Error Updating Repository Description for CodeCommit Repository: ThrottlingException: Rate exceeded'')"
  "snd (snd (snd (resourceAwsCodeCommitRepositoryUpdate scripted existing_d
          (healthy\<lparr>on_update_description := Some throttled\<rparr>)))) =
     [(ListBranchesInput ''demo'', None),
      (UpdateDefaultBranchInput ''demo'' ''main'', None),
      (UpdateRepositoryDescriptionInput ''demo'' ''a demo'', Some throttled)]"
  by (simp_all add: run_simps)

lemma run_update_tags_fail:
  "snd (snd (snd (resourceAwsCodeCommitRepositoryUpdate scripted existing_d
          (healthy\<lparr>on_set_tags := Some throttled\<rparr>)))) =
     [(ListBranchesInput ''demo'', None),
      (UpdateDefaultBranchInput ''demo'' ''main'', None),
      (UpdateRepositoryDescriptionInput ''demo'' ''a demo'', None),
      (SetTagsCall ''demo'' Map.empty, Some throttled)]"
  by (simp add: run_simps)

lemma run_update_empty_branches_description_fails:
  "fst (resourceAwsCodeCommitRepositoryUpdate scripted existing_d
          (healthy\<lparr>on_list_branches := Inr [], on_update_description := Some throttled\<rparr>)) =
     Returned (Some ''Error Updating Repository Description for CodeCommit Repository: ThrottlingException: Rate exceeded'')"
  "snd (snd (snd (resourceAwsCodeCommitRepositoryUpdate scripted existing_d
          (healthy\<lparr>on_list_branches := Inr [], on_update_description := Some throttled\<rparr>)))) =
     [(ListBranchesInput ''demo'', None),
      (UpdateRepositoryDescriptionInput ''demo'' ''a demo'', Some throttled)]"
  by (simp_all add: run_simps)

subsection \<open>The schema\<close>

lemma accepts_description:
  "accepts (schema_zero\<lparr>Type := TypeString, Optional := True,
      ValidateFunc := Some (StringLenBetween 0 1000)\<rparr>) ''description'' v = (length v \<le> 1000)"
  by (auto simp: accepts_def StringLenBetween_def schema_zero_def)

subsection \<open>Not found on read\<close>

text \<open>
  Claim C1. When the \<^verbatim>\<open>GetRepository\<close> call of Read fails with the "repository does
  not exist" error code, Read sets the resource Id to the empty string and returns
  \<^verbatim>\<open>nil\<close>; when the call fails in any other way, with another code or with an error
  that carries no code, Read returns an error.
\<close>

theorem read_not_found_clears_id:
  assumes "GetRepository (codecommitconn meta) (d_Id d) s = (Inl err, s1)"
  shows "((\<exists>m. awserr err = Some (ErrCodeRepositoryDoesNotExistException, m)) \<longrightarrow>
            resourceAwsCodeCommitRepositoryRead meta d s =
              (Returned None, d_SetId [] d, s1, [(GetRepositoryInput (d_Id d), Some err)])
            \<and> d_Id (d_SetId [] d) = [])
       \<and> ((\<forall>m. awserr err \<noteq> Some (ErrCodeRepositoryDoesNotExistException, m)) \<longrightarrow>
            resourceAwsCodeCommitRepositoryRead meta d s =
              (Returned (Some (''Error reading CodeCommit Repository: '' @ Error err)), d, s1,
               [(GetRepositoryInput (d_Id d), Some err)]))"
  using assms
  by (simp add: resourceAwsCodeCommitRepositoryRead_def isAWSErr_code d_Id_def d_SetId_def)

theorem read_not_found_clears_id_witness:
  "resourceAwsCodeCommitRepositoryRead scripted existing_d (healthy\<lparr>on_get := Inl not_found\<rparr>) =
     (Returned None, existing_d\<lparr>rd_id := []\<rparr>, healthy\<lparr>on_get := Inl not_found\<rparr>,
      [(GetRepositoryInput ''demo'', Some not_found)])
   \<and> resourceAwsCodeCommitRepositoryRead scripted existing_d (healthy\<lparr>on_get := Inl throttled\<rparr>) =
     (Returned (Some ''Error reading CodeCommit Repository: ThrottlingException: Rate exceeded''),
      existing_d, healthy\<lparr>on_get := Inl throttled\<rparr>,
      [(GetRepositoryInput ''demo'', Some throttled)])"
proof -
  have g1: "GetRepository (codecommitconn scripted) (d_Id existing_d) (healthy\<lparr>on_get := Inl not_found\<rparr>)
      = (Inl not_found, healthy\<lparr>on_get := Inl not_found\<rparr>)"
    by (simp add: scripted_def)
  have g2: "GetRepository (codecommitconn scripted) (d_Id existing_d) (healthy\<lparr>on_get := Inl throttled\<rparr>)
      = (Inl throttled, healthy\<lparr>on_get := Inl throttled\<rparr>)"
    by (simp add: scripted_def)
  have c1: "\<exists>m. awserr not_found = Some (ErrCodeRepositoryDoesNotExistException, m)"
    by (simp add: not_found_def ErrCodeRepositoryDoesNotExistException_def)
  have c2: "\<forall>m. awserr throttled \<noteq> Some (ErrCodeRepositoryDoesNotExistException, m)"
    by (simp add: throttled_def ErrCodeRepositoryDoesNotExistException_def)
  have i: "d_Id existing_d = ''demo''"
    by (simp add: d_Id_def existing_d_def)
  show ?thesis
    using read_not_found_clears_id [OF g1] read_not_found_clears_id [OF g2] c1 c2 i
    by (simp add: d_SetId_def throttled_def)
qed

subsection \<open>What Read writes\<close>

text \<open>
  Claim C6. When the \<^verbatim>\<open>GetRepository\<close> call of Read succeeds with metadata \<open>md\<close>,
  the attributes \<^verbatim>\<open>repository_id\<close>, \<^verbatim>\<open>arn\<close>, \<^verbatim>\<open>clone_url_http\<close>, \<^verbatim>\<open>clone_url_ssh\<close>,
  \<^verbatim>\<open>description\<close> and \<^verbatim>\<open>repository_name\<close> read, after Read, as the fields of \<open>md\<close>
  (a \<^verbatim>\<open>nil\<close> field reads as the empty string), whatever the later call does.
\<close>

theorem read_copies_metadata:
  assumes "GetRepository (codecommitconn meta) (d_Id d) s = (Inr (Some md), s1)"
    and "resourceAwsCodeCommitRepositoryRead meta d s = (r, d', s', evs)"
  shows "d_Get d' ''repository_id'' = aws_StringValue (RepositoryId md)
       \<and> d_Get d' ''arn'' = aws_StringValue (Arn md)
       \<and> d_Get d' ''clone_url_http'' = aws_StringValue (CloneUrlHttp md)
       \<and> d_Get d' ''clone_url_ssh'' = aws_StringValue (CloneUrlSsh md)
       \<and> d_Get d' ''description'' = aws_StringValue (RepositoryDescription md)
       \<and> d_Get d' ''repository_name'' = aws_StringValue (RepositoryName md)"
  by (simp add: read_get_ok_state [OF assms] after_get_Get)

theorem read_copies_metadata_witness:
  "GetRepository (codecommitconn scripted) (d_Id existing_d) healthy = (Inr (Some demo_metadata), healthy)
   \<and> d_Get (fst (snd (resourceAwsCodeCommitRepositoryRead scripted existing_d healthy))) ''repository_id''
       = ''f7579e13''
   \<and> d_Get (fst (snd (resourceAwsCodeCommitRepositoryRead scripted existing_d healthy))) ''arn''
       = ''arn:aws:codecommit:eu-west-1:111122223333:demo''
   \<and> d_Get (fst (snd (resourceAwsCodeCommitRepositoryRead scripted existing_d healthy))) ''clone_url_http''
       = ''https://git-codecommit.eu-west-1.amazonaws.com/v1/repos/demo''
   \<and> d_Get (fst (snd (resourceAwsCodeCommitRepositoryRead scripted existing_d healthy))) ''clone_url_ssh''
       = ''ssh://git-codecommit.eu-west-1.amazonaws.com/v1/repos/demo''
   \<and> d_Get (fst (snd (resourceAwsCodeCommitRepositoryRead scripted existing_d healthy))) ''description''
       = ''a demo''
   \<and> d_Get (fst (snd (resourceAwsCodeCommitRepositoryRead scripted existing_d healthy))) ''repository_name''
       = ''demo''"
proof -
  have g: "GetRepository (codecommitconn scripted) (d_Id existing_d) healthy
      = (Inr (Some demo_metadata), healthy)"
    by (simp add: healthy_def)
  show ?thesis
    using g read_copies_metadata [OF g handled_eta]
    by (simp add: demo_metadata_def aws_StringValue_def)
qed



subsection \<open>A failed create\<close>

text \<open>
  Claim C9. When the \<^verbatim>\<open>CreateRepository\<close> call fails, Create returns the error with
  the resource data exactly as it was given: no Id and no computed attribute is written,
  and no other call is made.
\<close>

theorem create_failure_leaves_state:
  assumes "CreateRepository (codecommitconn meta) (d_Get d ''repository_name'')
             (d_Get d ''description'') (tagsFromMapCodeCommit meta (d_Get_map d ''tags'')) s
           = (Inl err, s1)"
  shows "resourceAwsCodeCommitRepositoryCreate meta d s =
           (Returned (Some (''Error creating CodeCommit Repository: '' @ Error err)), d, s1,
            [(CreateRepositoryInput (d_Get d ''repository_name'') (d_Get d ''description'')
                (tagsFromMapCodeCommit meta (d_Get_map d ''tags'')), Some err)])"
  using assms by (simp add: resourceAwsCodeCommitRepositoryCreate_def)

theorem create_failure_leaves_state_witness:
  "resourceAwsCodeCommitRepositoryCreate scripted new_d (healthy\<lparr>on_create := Inl throttled\<rparr>) =
     (Returned (Some ''Error creating CodeCommit Repository: ThrottlingException: Rate exceeded''),
      new_d, healthy\<lparr>on_create := Inl throttled\<rparr>,
      [(CreateRepositoryInput ''demo'' ''a demo'' Map.empty, Some throttled)])"
proof -
  have g: "CreateRepository (codecommitconn scripted) (d_Get new_d ''repository_name'')
             (d_Get new_d ''description'') (tagsFromMapCodeCommit scripted (d_Get_map new_d ''tags''))
             (healthy\<lparr>on_create := Inl throttled\<rparr>)
           = (Inl throttled, healthy\<lparr>on_create := Inl throttled\<rparr>)"
    by simp
  have n: "d_Get new_d ''repository_name'' = ''demo''" "d_Get new_d ''description'' = ''a demo''"
    by (simp_all add: d_Get_def new_d_def demo_config_def)
  have t: "tagsFromMapCodeCommit scripted (d_Get_map new_d ''tags'') = Map.empty"
    by (simp add: scripted_def d_Get_map_def new_d_def)
  show ?thesis
    using create_failure_leaves_state [OF g]
    by (simp add: n t throttled_def)
qed

subsection \<open>Failures of remote calls\<close>

text \<open>
  Claim C3. In a run of Create, Update, Read or Delete (with the handlers they end in),
  when a remote call fails, other than the \<^verbatim>\<open>GetRepository\<close> of Read failing with the
  "repository does not exist" code, the failed call is the last call of the run and the
  handler returns an error whose message is the error of the call behind the prefix
  that describes the call (\<open>error_prefix\<close>, never empty).
\<close>

theorem remote_failures_surfaced:
  assumes "H \<in> {resourceAwsCodeCommitRepositoryCreate, resourceAwsCodeCommitRepositoryUpdate,
                 resourceAwsCodeCommitRepositoryRead, resourceAwsCodeCommitRepositoryDelete}"
    and "H meta d s = (r, d', s', pre @ (req, Some err) # post)"
    and "\<not> not_found_on_read req err"
  shows "post = [] \<and> r = Returned (Some (error_prefix req (d_Id d') @ Error err))
       \<and> error_prefix req (d_Id d') \<noteq> []"
proof -
  from assms(1,2) have "surfaced r (d_Id d') (pre @ (req, Some err) # post)"
    by (auto simp: create_surfaced update_surfaced read_surfaced delete_surfaced)
  from surfacedD [OF this refl assms(3)] show ?thesis
    by (cases req) simp_all
qed

theorem remote_failures_surfaced_witness:
  "snd (snd (snd (resourceAwsCodeCommitRepositoryUpdate scripted existing_d
          (healthy\<lparr>on_list_tags := Inl throttled\<rparr>)))) =
     [(ListBranchesInput ''demo'', None),
      (UpdateDefaultBranchInput ''demo'' ''main'', None),
      (UpdateRepositoryDescriptionInput ''demo'' ''a demo'', None),
      (SetTagsCall ''demo'' Map.empty, None),
      (GetRepositoryInput ''demo'', None)]
     @ (ListTagsForResourceInput (Some ''arn:aws:codecommit:eu-west-1:111122223333:demo''),
        Some throttled) # []
   \<and> \<not> not_found_on_read
         (ListTagsForResourceInput (Some ''arn:aws:codecommit:eu-west-1:111122223333:demo''))
         throttled
   \<and> fst (resourceAwsCodeCommitRepositoryUpdate scripted existing_d
          (healthy\<lparr>on_list_tags := Inl throttled\<rparr>)) =
     Returned (Some ''error listing CodeCommit Repository tags for demo: ThrottlingException: Rate exceeded'')"
proof -
  let ?R = "resourceAwsCodeCommitRepositoryUpdate scripted existing_d
          (healthy\<lparr>on_list_tags := Inl throttled\<rparr>)"
  let ?pre = "[(ListBranchesInput ''demo'', None),
      (UpdateDefaultBranchInput ''demo'' ''main'', None),
      (UpdateRepositoryDescriptionInput ''demo'' ''a demo'', None),
      (SetTagsCall ''demo'' Map.empty, None),
      (GetRepositoryInput ''demo'', None)]"
  let ?req = "ListTagsForResourceInput (Some ''arn:aws:codecommit:eu-west-1:111122223333:demo'')"
  have ev: "snd (snd (snd ?R)) = ?pre @ (?req, Some throttled) # []"
    by (simp add: run_update_tags_listing_fails)
  have run: "?R = (fst ?R, fst (snd ?R), fst (snd (snd ?R)), ?pre @ (?req, Some throttled) # [])"
    unfolding ev [symmetric] by simp
  have nf: "\<not> not_found_on_read ?req throttled"
    by (simp add: not_found_on_read_def)
  have mem: "resourceAwsCodeCommitRepositoryUpdate \<in>
      {resourceAwsCodeCommitRepositoryCreate, resourceAwsCodeCommitRepositoryUpdate,
       resourceAwsCodeCommitRepositoryRead, resourceAwsCodeCommitRepositoryDelete}"
    by simp
  from remote_failures_surfaced [OF mem run nf]
  have "fst ?R = Returned (Some (error_prefix ?req (d_Id (fst (snd ?R))) @ Error throttled))"
    by simp
  moreover have "d_Id (fst (snd ?R)) = ''demo''"
    by (rule run_update_tags_listing_fails)
  moreover have "Error throttled = ''ThrottlingException: Rate exceeded''"
    by (simp add: throttled_def)
  ultimately show ?thesis
    using ev nf by simp
qed

subsection \<open>The default branch\<close>

text \<open>
  Claim C2 says that Update returns \<^verbatim>\<open>nil\<close> when the list of branches is empty. On
  an empty list it is \<^verbatim>\<open>resourceAwsCodeCommitUpdateDefaultBranch\<close> that returns
  \<^verbatim>\<open>nil\<close>, to Update, which goes on with its other steps: on the existing resource,
  with a changed default branch and description, an empty list of branches and an
  \<^verbatim>\<open>UpdateRepositoryDescription\<close> that fails, Update returns that error.
\<close>

theorem update_errors_after_empty_branch_list:
  "snd (d_GetOk existing_d ''default_branch'') \<and> d_HasChange existing_d ''default_branch''
   \<and> ListBranches (codecommitconn scripted) (d_Id existing_d)
        (healthy\<lparr>on_list_branches := Inr [], on_update_description := Some throttled\<rparr>)
       = (Inr [], healthy\<lparr>on_list_branches := Inr [], on_update_description := Some throttled\<rparr>)
   \<and> fst (resourceAwsCodeCommitRepositoryUpdate scripted existing_d
          (healthy\<lparr>on_list_branches := Inr [], on_update_description := Some throttled\<rparr>)) =
       Returned (Some ''Error Updating Repository Description for CodeCommit Repository: ThrottlingException: Rate exceeded'')
   \<and> fst (resourceAwsCodeCommitRepositoryUpdate scripted existing_d
          (healthy\<lparr>on_list_branches := Inr [], on_update_description := Some throttled\<rparr>))
       \<noteq> Returned None
   \<and> snd (snd (snd (resourceAwsCodeCommitRepositoryUpdate scripted existing_d
          (healthy\<lparr>on_list_branches := Inr [], on_update_description := Some throttled\<rparr>)))) =
       [(ListBranchesInput ''demo'', None),
        (UpdateRepositoryDescriptionInput ''demo'' ''a demo'', Some throttled)]"
proof -
  have c1: "snd (d_GetOk existing_d ''default_branch'')"
    by (simp add: d_GetOk_def d_Get_def existing_d_def demo_config_def)
  have c2: "d_HasChange existing_d ''default_branch''"
    by (simp add: d_HasChange_def existing_d_def demo_config_def)
  have l: "ListBranches (codecommitconn scripted) (d_Id existing_d)
        (healthy\<lparr>on_list_branches := Inr [], on_update_description := Some throttled\<rparr>)
       = (Inr [], healthy\<lparr>on_list_branches := Inr [], on_update_description := Some throttled\<rparr>)"
    by simp
  from c1 c2 l show ?thesis
    by (simp add: run_update_empty_branches_description_fails)
qed

text \<open>
  Claim C2, amended. In an Update where \<^verbatim>\<open>default_branch\<close> is set and has changed, the
  first call lists the branches of the repository; \<^verbatim>\<open>UpdateDefaultBranch\<close> is called,
  with the Id and the configured branch, exactly when the listing returned a list that
  is not empty. On an empty list \<^verbatim>\<open>resourceAwsCodeCommitUpdateDefaultBranch\<close> returns
  \<^verbatim>\<open>nil\<close> to Update after that one call, and Update goes on from there: it returns
  the error of its description step or of its tag step if one fails, and what Read
  returns otherwise.
\<close>

theorem default_branch_update_needs_branches:
  assumes "snd (d_GetOk d ''default_branch'')" and "d_HasChange d ''default_branch''"
    and "resourceAwsCodeCommitRepositoryUpdate meta d s = (r, d', s', evs)"
  shows "(\<exists>e rest. evs = (ListBranchesInput (d_Id d), e) # rest)
       \<and> ((\<exists>req e. is_UpdateDefaultBranch req \<and> (req, e) \<in> set evs) =
          (\<exists>bs t. ListBranches (codecommitconn meta) (d_Id d) s = (Inr bs, t) \<and> bs \<noteq> []))
       \<and> (\<forall>req e. is_UpdateDefaultBranch req \<and> (req, e) \<in> set evs \<longrightarrow>
             req = UpdateDefaultBranchInput (d_Id d) (d_Get d ''default_branch''))
       \<and> (\<forall>t. ListBranches (codecommitconn meta) (d_Id d) s = (Inr [], t) \<longrightarrow>
             resourceAwsCodeCommitUpdateDefaultBranch (codecommitconn meta) d s =
               (None, t, [(ListBranchesInput (d_Id d), None)]))
       \<and> (\<forall>t. ListBranches (codecommitconn meta) (d_Id d) s = (Inr [], t) \<longrightarrow>
             resourceAwsCodeCommitRepositoryUpdate meta d s =
               (case description_step meta d t of
                  (Some err, s2, ev2) \<Rightarrow>
                    (Returned (Some err), d, s2, (ListBranchesInput (d_Id d), None) # ev2)
                | (None, s2, ev2) \<Rightarrow>
                    (case tags_step meta d s2 of
                       (Some err, s3, ev3) \<Rightarrow>
                         (Returned (Some err), d, s3,
                          (ListBranchesInput (d_Id d), None) # ev2 @ ev3)
                     | (None, s3, ev3) \<Rightarrow>
                         (case resourceAwsCodeCommitRepositoryRead meta d s3 of
                            (r, d', s4, ev4) \<Rightarrow>
                              (r, d', s4,
                               (ListBranchesInput (d_Id d), None) # ev2 @ ev3 @ ev4)))))"
proof -
  from assms(3) obtain r1 s1 ev1 rest where
    st: "default_branch_step meta d s = (r1, s1, ev1)" and evs: "evs = ev1 @ rest"
    and rest: "\<forall>ev \<in> set rest. is_UpdateRepositoryDescription (fst ev) \<or> is_SetTags (fst ev)
        \<or> is_read_request (fst ev)"
    by (rule update_events)
  from default_branch_events(1) [OF assms(1,2) st] obtain e tl where
    ev1: "ev1 = (ListBranchesInput (d_Id d), e) # tl"
    and tl: "\<forall>ev \<in> set tl. fst ev = UpdateDefaultBranchInput (d_Id d) (d_Get d ''default_branch'')"
    by blast
  have no: "(req, e) \<notin> set rest" if "is_UpdateDefaultBranch req" for req e
  proof
    assume "(req, e) \<in> set rest"
    with rest have "is_UpdateRepositoryDescription req \<or> is_SetTags req \<or> is_read_request req"
      by force
    with that show False
      by (cases req) (simp_all add: is_read_request_def)
  qed
  have same: "(\<exists>req e. is_UpdateDefaultBranch req \<and> (req, e) \<in> set evs) =
      (\<exists>req e. is_UpdateDefaultBranch req \<and> (req, e) \<in> set ev1)"
    using no evs by auto
  have first: "\<exists>e rest. evs = (ListBranchesInput (d_Id d), e) # rest"
    using evs ev1 by simp
  have which: "\<forall>req e. is_UpdateDefaultBranch req \<and> (req, e) \<in> set evs \<longrightarrow>
             req = UpdateDefaultBranchInput (d_Id d) (d_Get d ''default_branch'')"
    using no evs ev1 tl by auto
  have iff: "(\<exists>req e. is_UpdateDefaultBranch req \<and> (req, e) \<in> set evs) =
      (\<exists>bs t. ListBranches (codecommitconn meta) (d_Id d) s = (Inr bs, t) \<and> bs \<noteq> [])"
    using same default_branch_events(2) [OF assms(1,2) st] by simp
  have nil: "\<forall>t. ListBranches (codecommitconn meta) (d_Id d) s = (Inr [], t) \<longrightarrow>
             resourceAwsCodeCommitUpdateDefaultBranch (codecommitconn meta) d s =
               (None, t, [(ListBranchesInput (d_Id d), None)])"
    by (simp add: update_default_branch_empty)
  have cont: "\<forall>t. ListBranches (codecommitconn meta) (d_Id d) s = (Inr [], t) \<longrightarrow>
             resourceAwsCodeCommitRepositoryUpdate meta d s =
               (case description_step meta d t of
                  (Some err, s2, ev2) \<Rightarrow>
                    (Returned (Some err), d, s2, (ListBranchesInput (d_Id d), None) # ev2)
                | (None, s2, ev2) \<Rightarrow>
                    (case tags_step meta d s2 of
                       (Some err, s3, ev3) \<Rightarrow>
                         (Returned (Some err), d, s3,
                          (ListBranchesInput (d_Id d), None) # ev2 @ ev3)
                     | (None, s3, ev3) \<Rightarrow>
                         (case resourceAwsCodeCommitRepositoryRead meta d s3 of
                            (r, d', s4, ev4) \<Rightarrow>
                              (r, d', s4,
                               (ListBranchesInput (d_Id d), None) # ev2 @ ev3 @ ev4))))"
    by (intro allI impI) (rule update_after_empty_branch_list [OF assms(1,2)])
  from first iff which nil cont show ?thesis
    by (intro conjI)
qed

theorem default_branch_update_needs_branches_witness:
  "snd (d_GetOk existing_d ''default_branch'') \<and> d_HasChange existing_d ''default_branch''
   \<and> ListBranches (codecommitconn scripted) (d_Id existing_d) healthy = (Inr [''main''], healthy)
   \<and> (\<exists>rest. snd (snd (snd (resourceAwsCodeCommitRepositoryUpdate scripted existing_d healthy)))
          = (ListBranchesInput ''demo'', None) # rest)
   \<and> (\<exists>req e. is_UpdateDefaultBranch req
         \<and> (req, e) \<in> set (snd (snd (snd
               (resourceAwsCodeCommitRepositoryUpdate scripted existing_d healthy)))))
   \<and> ListBranches (codecommitconn scripted) (d_Id existing_d) (healthy\<lparr>on_list_branches := Inr []\<rparr>)
       = (Inr [], healthy\<lparr>on_list_branches := Inr []\<rparr>)
   \<and> resourceAwsCodeCommitUpdateDefaultBranch (codecommitconn scripted) existing_d
         (healthy\<lparr>on_list_branches := Inr []\<rparr>)
       = (None, healthy\<lparr>on_list_branches := Inr []\<rparr>, [(ListBranchesInput ''demo'', None)])
   \<and> \<not> (\<exists>req e. is_UpdateDefaultBranch req
         \<and> (req, e) \<in> set (snd (snd (snd
               (resourceAwsCodeCommitRepositoryUpdate scripted existing_d
                  (healthy\<lparr>on_list_branches := Inr []\<rparr>))))))"
proof -
  have c1: "snd (d_GetOk existing_d ''default_branch'')"
    by (simp add: d_GetOk_def d_Get_def existing_d_def demo_config_def)
  have c2: "d_HasChange existing_d ''default_branch''"
    by (simp add: d_HasChange_def existing_d_def demo_config_def)
  have i: "d_Id existing_d = ''demo''"
    by (simp add: d_Id_def existing_d_def)
  have l1: "ListBranches (codecommitconn scripted) (d_Id existing_d) healthy = (Inr [''main''], healthy)"
    by (simp add: healthy_def)
  have l2: "ListBranches (codecommitconn scripted) (d_Id existing_d)
      (healthy\<lparr>on_list_branches := Inr []\<rparr>) = (Inr [], healthy\<lparr>on_list_branches := Inr []\<rparr>)"
    by simp
  have first: "\<exists>rest. snd (snd (snd (resourceAwsCodeCommitRepositoryUpdate scripted existing_d healthy)))
          = (ListBranchesInput ''demo'', None) # rest"
    by (simp add: run_simps)
  note full = default_branch_update_needs_branches [OF c1 c2 handled_eta, of scripted healthy]
  note void = default_branch_update_needs_branches [OF c1 c2 handled_eta, of scripted
      "healthy\<lparr>on_list_branches := Inr []\<rparr>"]
  note called = full [THEN conjunct2, THEN conjunct1]
  note skipped = void [THEN conjunct2, THEN conjunct1]
  note helper = void [THEN conjunct2, THEN conjunct2, THEN conjunct2, THEN conjunct1]
  show ?thesis
    using c1 c2 l1 l2 first called skipped helper by (simp add: i)
qed

subsection \<open>The chain of handlers\<close>

text \<open>
  Claim C4. When its \<^verbatim>\<open>CreateRepository\<close> call succeeds, Create ends by calling
  Update on the resource data it has written, and returns what Update returns. An
  Update in which no call of its own steps failed, so that it did not return an error
  early, ends by calling Read on the resource data it was given, and returns what Read
  returns. So a Create that returns \<^verbatim>\<open>nil\<close> is the create call, then the calls of
  Update, which all succeeded, then a Read that returned \<^verbatim>\<open>nil\<close>; its resource data
  and remote state are those of that Read.
\<close>

theorem create_update_read_chain:
  "(\<forall>md s1.
      CreateRepository (codecommitconn meta) (d_Get d ''repository_name'')
        (d_Get d ''description'') (tagsFromMapCodeCommit meta (d_Get_map d ''tags'')) s
      = (Inr (Some md), s1) \<longrightarrow>
      resourceAwsCodeCommitRepositoryCreate meta d s =
        (case resourceAwsCodeCommitRepositoryUpdate meta (after_create d md) s1 of
           (r, d', s', ev) \<Rightarrow>
             (r, d', s',
              (CreateRepositoryInput (d_Get d ''repository_name'') (d_Get d ''description'')
                 (tagsFromMapCodeCommit meta (d_Get_map d ''tags'')), None) # ev)))
   \<and> (\<forall>r d' s' evs.
        resourceAwsCodeCommitRepositoryUpdate meta d s = (r, d', s', evs)
        \<and> (\<forall>ev \<in> set evs. is_update_request (fst ev) \<or> is_SetTags (fst ev) \<longrightarrow> snd ev = None)
        \<longrightarrow>
        (\<exists>ev0 s0 ev1. evs = ev0 @ ev1 \<and> all_ok ev0
           \<and> (\<forall>ev \<in> set ev0. is_update_request (fst ev) \<or> is_SetTags (fst ev))
           \<and> resourceAwsCodeCommitRepositoryRead meta d s0 = (r, d', s', ev1)))
   \<and> (\<forall>d' s' evs.
        resourceAwsCodeCommitRepositoryCreate meta d s = (Returned None, d', s', evs) \<longrightarrow>
        (\<exists>md s1 ev0 s0 ev1.
           CreateRepository (codecommitconn meta) (d_Get d ''repository_name'')
             (d_Get d ''description'') (tagsFromMapCodeCommit meta (d_Get_map d ''tags'')) s
           = (Inr (Some md), s1)
         \<and> evs = (CreateRepositoryInput (d_Get d ''repository_name'') (d_Get d ''description'')
                    (tagsFromMapCodeCommit meta (d_Get_map d ''tags'')), None) # ev0 @ ev1
         \<and> all_ok ev0
         \<and> (\<forall>ev \<in> set ev0. is_update_request (fst ev) \<or> is_SetTags (fst ev))
         \<and> resourceAwsCodeCommitRepositoryRead meta (after_create d md) s0
             = (Returned None, d', s', ev1)))"
proof (intro conjI allI impI)
  fix md s1
  assume "CreateRepository (codecommitconn meta) (d_Get d ''repository_name'')
        (d_Get d ''description'') (tagsFromMapCodeCommit meta (d_Get_map d ''tags'')) s
      = (Inr (Some md), s1)"
  then show "resourceAwsCodeCommitRepositoryCreate meta d s =
        (case resourceAwsCodeCommitRepositoryUpdate meta (after_create d md) s1 of
           (r, d', s', ev) \<Rightarrow>
             (r, d', s',
              (CreateRepositoryInput (d_Get d ''repository_name'') (d_Get d ''description'')
                 (tagsFromMapCodeCommit meta (d_Get_map d ''tags'')), None) # ev))"
    by (rule create_then_update)
next
  fix r d' s' evs
  assume a: "resourceAwsCodeCommitRepositoryUpdate meta d s = (r, d', s', evs)
        \<and> (\<forall>ev \<in> set evs. is_update_request (fst ev) \<or> is_SetTags (fst ev) \<longrightarrow> snd ev = None)"
  show "\<exists>ev0 s0 ev1. evs = ev0 @ ev1 \<and> all_ok ev0
           \<and> (\<forall>ev \<in> set ev0. is_update_request (fst ev) \<or> is_SetTags (fst ev))
           \<and> resourceAwsCodeCommitRepositoryRead meta d s0 = (r, d', s', ev1)"
    by (rule update_then_read [OF conjunct1 [OF a] conjunct2 [OF a]])
next
  fix d' s' evs
  assume "resourceAwsCodeCommitRepositoryCreate meta d s = (Returned None, d', s', evs)"
  then show "\<exists>md s1 ev0 s0 ev1.
           CreateRepository (codecommitconn meta) (d_Get d ''repository_name'')
             (d_Get d ''description'') (tagsFromMapCodeCommit meta (d_Get_map d ''tags'')) s
           = (Inr (Some md), s1)
         \<and> evs = (CreateRepositoryInput (d_Get d ''repository_name'') (d_Get d ''description'')
                    (tagsFromMapCodeCommit meta (d_Get_map d ''tags'')), None) # ev0 @ ev1
         \<and> all_ok ev0
         \<and> (\<forall>ev \<in> set ev0. is_update_request (fst ev) \<or> is_SetTags (fst ev))
         \<and> resourceAwsCodeCommitRepositoryRead meta (after_create d md) s0
             = (Returned None, d', s', ev1)"
    by (rule create_nil_then_read)
qed

theorem create_update_read_chain_witness:
  "CreateRepository (codecommitconn scripted) (d_Get new_d ''repository_name'')
     (d_Get new_d ''description'') (tagsFromMapCodeCommit scripted (d_Get_map new_d ''tags''))
     healthy = (Inr (Some demo_metadata), healthy)
   \<and> resourceAwsCodeCommitRepositoryCreate scripted new_d healthy =
       (case resourceAwsCodeCommitRepositoryUpdate scripted (after_create new_d demo_metadata)
               healthy of
          (r, d', s', ev) \<Rightarrow>
            (r, d', s',
             (CreateRepositoryInput (d_Get new_d ''repository_name'') (d_Get new_d ''description'')
                (tagsFromMapCodeCommit scripted (d_Get_map new_d ''tags'')), None) # ev))
   \<and> fst (resourceAwsCodeCommitRepositoryCreate scripted new_d healthy) = Returned None
   \<and> (\<exists>ev0 s0 ev1.
         snd (snd (snd (resourceAwsCodeCommitRepositoryCreate scripted new_d healthy))) =
           (CreateRepositoryInput (d_Get new_d ''repository_name'') (d_Get new_d ''description'')
              (tagsFromMapCodeCommit scripted (d_Get_map new_d ''tags'')), None) # ev0 @ ev1
         \<and> all_ok ev0
         \<and> resourceAwsCodeCommitRepositoryRead scripted (after_create new_d demo_metadata) s0 =
             (Returned None,
              fst (snd (resourceAwsCodeCommitRepositoryCreate scripted new_d healthy)),
              fst (snd (snd (resourceAwsCodeCommitRepositoryCreate scripted new_d healthy))),
              ev1))
   \<and> all_ok (snd (snd (snd (resourceAwsCodeCommitRepositoryUpdate scripted existing_d healthy))))
   \<and> (\<exists>ev0 s0 ev1.
         snd (snd (snd (resourceAwsCodeCommitRepositoryUpdate scripted existing_d healthy))) = ev0 @ ev1
         \<and> resourceAwsCodeCommitRepositoryRead scripted existing_d s0 =
             (fst (resourceAwsCodeCommitRepositoryUpdate scripted existing_d healthy),
              fst (snd (resourceAwsCodeCommitRepositoryUpdate scripted existing_d healthy)),
              fst (snd (snd (resourceAwsCodeCommitRepositoryUpdate scripted existing_d healthy))),
              ev1))"
proof -
  let ?C = "resourceAwsCodeCommitRepositoryCreate scripted new_d healthy"
  let ?U = "resourceAwsCodeCommitRepositoryUpdate scripted existing_d healthy"
  have g: "CreateRepository (codecommitconn scripted) (d_Get new_d ''repository_name'')
     (d_Get new_d ''description'') (tagsFromMapCodeCommit scripted (d_Get_map new_d ''tags''))
     healthy = (Inr (Some demo_metadata), healthy)"
    by (simp add: healthy_def)
  have nil: "?C = (Returned None, fst (snd ?C), fst (snd (snd ?C)), snd (snd (snd ?C)))"
    unfolding run_create_healthy [symmetric] by simp
  have ok: "all_ok (snd (snd (snd ?U)))"
    by (simp add: run_update_healthy)
  then have quiet: "\<forall>ev \<in> set (snd (snd (snd ?U))).
      is_update_request (fst ev) \<or> is_SetTags (fst ev) \<longrightarrow> snd ev = None"
    by (simp add: all_ok_def)
  note chain = create_update_read_chain [of scripted new_d healthy]
  note upd = create_update_read_chain [of scripted existing_d healthy]
  from chain g have one: "?C =
       (case resourceAwsCodeCommitRepositoryUpdate scripted (after_create new_d demo_metadata)
               healthy of
          (r, d', s', ev) \<Rightarrow>
            (r, d', s',
             (CreateRepositoryInput (d_Get new_d ''repository_name'') (d_Get new_d ''description'')
                (tagsFromMapCodeCommit scripted (d_Get_map new_d ''tags'')), None) # ev))"
    by blast
  from chain nil obtain md s1 ev0 s0 ev1 where three:
    "CreateRepository (codecommitconn scripted) (d_Get new_d ''repository_name'')
       (d_Get new_d ''description'') (tagsFromMapCodeCommit scripted (d_Get_map new_d ''tags''))
       healthy = (Inr (Some md), s1)"
    "snd (snd (snd ?C)) =
       (CreateRepositoryInput (d_Get new_d ''repository_name'') (d_Get new_d ''description'')
          (tagsFromMapCodeCommit scripted (d_Get_map new_d ''tags'')), None) # ev0 @ ev1"
    "all_ok ev0"
    "resourceAwsCodeCommitRepositoryRead scripted (after_create new_d md) s0 =
       (Returned None, fst (snd ?C), fst (snd (snd ?C)), ev1)"
    by blast
  from three(1) g have "md = demo_metadata"
    by simp
  with three have c3: "\<exists>ev0 s0 ev1.
         snd (snd (snd ?C)) =
           (CreateRepositoryInput (d_Get new_d ''repository_name'') (d_Get new_d ''description'')
              (tagsFromMapCodeCommit scripted (d_Get_map new_d ''tags'')), None) # ev0 @ ev1
         \<and> all_ok ev0
         \<and> resourceAwsCodeCommitRepositoryRead scripted (after_create new_d demo_metadata) s0 =
             (Returned None, fst (snd ?C), fst (snd (snd ?C)), ev1)"
    by blast
  from upd handled_eta [of ?U] quiet have c2: "\<exists>ev0 s0 ev1.
         snd (snd (snd ?U)) = ev0 @ ev1
         \<and> resourceAwsCodeCommitRepositoryRead scripted existing_d s0 =
             (fst ?U, fst (snd ?U), fst (snd (snd ?U)), ev1)"
    by blast
  from g one run_create_healthy c3 ok c2 show ?thesis
    by (intro conjI)
qed

subsection \<open>The Id of the resource\<close>

text \<open>
  Claim C5 says that after every successful Create the resource Id is the configured
  \<^verbatim>\<open>repository_name\<close>. Create returns what the Read at the end of the chain returns,
  and that Read clears the Id when \<^verbatim>\<open>GetRepository\<close> does not find the repository and
  still returns \<^verbatim>\<open>nil\<close>: a Create that returns \<^verbatim>\<open>nil\<close> with the empty Id while
  the configured name is \<^verbatim>\<open>demo\<close>.
\<close>

theorem create_nil_with_cleared_id:
  "fst (resourceAwsCodeCommitRepositoryCreate scripted new_d (healthy\<lparr>on_get := Inl not_found\<rparr>))
     = Returned None
   \<and> d_Get new_d ''repository_name'' = ''demo''
   \<and> d_Id (fst (snd (resourceAwsCodeCommitRepositoryCreate scripted new_d
        (healthy\<lparr>on_get := Inl not_found\<rparr>)))) = []
   \<and> d_Id (fst (snd (resourceAwsCodeCommitRepositoryCreate scripted new_d
        (healthy\<lparr>on_get := Inl not_found\<rparr>)))) \<noteq> d_Get new_d ''repository_name''"
  by (simp add: run_create_not_found new_d_name)

text \<open>
  Claim C5, amended. When its \<^verbatim>\<open>CreateRepository\<close> call succeeds, Create sets the Id to
  the configured \<^verbatim>\<open>repository_name\<close> before it calls Update. When Create returns
  \<^verbatim>\<open>nil\<close>, the Id is that name, unless the last call of the run was a
  \<^verbatim>\<open>GetRepository\<close> for that name that failed with "repository does not exist": then
  the Id is empty. The first call of Read is \<^verbatim>\<open>GetRepository\<close> with the Id as the
  repository name (its other calls list tags, by ARN), and the one call of Delete is
  \<^verbatim>\<open>DeleteRepository\<close> with the Id as the repository name.
\<close>

theorem create_sets_id_unless_cleared:
  "(\<forall>md s1.
      CreateRepository (codecommitconn meta) (d_Get d ''repository_name'')
        (d_Get d ''description'') (tagsFromMapCodeCommit meta (d_Get_map d ''tags'')) s
      = (Inr (Some md), s1) \<longrightarrow>
      d_Id (after_create d md) = d_Get d ''repository_name''
      \<and> resourceAwsCodeCommitRepositoryCreate meta d s =
        (case resourceAwsCodeCommitRepositoryUpdate meta (after_create d md) s1 of
           (r, d', s', ev) \<Rightarrow>
             (r, d', s',
              (CreateRepositoryInput (d_Get d ''repository_name'') (d_Get d ''description'')
                 (tagsFromMapCodeCommit meta (d_Get_map d ''tags'')), None) # ev)))
   \<and> (\<forall>d' s' evs.
        resourceAwsCodeCommitRepositoryCreate meta d s = (Returned None, d', s', evs) \<longrightarrow>
        d_Id d' = d_Get d ''repository_name''
        \<or> (d_Id d' = []
            \<and> (\<exists>pre err. evs = pre @ [(GetRepositoryInput (d_Get d ''repository_name''), Some err)]
                  \<and> not_found_on_read (GetRepositoryInput (d_Get d ''repository_name'')) err)))
   \<and> (\<forall>r d' s' evs.
        resourceAwsCodeCommitRepositoryRead meta d s = (r, d', s', evs) \<longrightarrow>
        (\<exists>e rest. evs = (GetRepositoryInput (d_Id d), e) # rest
           \<and> (\<forall>ev \<in> set rest. is_ListTagsForResource (fst ev))))
   \<and> (\<forall>r d' s' evs.
        resourceAwsCodeCommitRepositoryDelete meta d s = (r, d', s', evs) \<longrightarrow>
        (\<exists>e. evs = [(DeleteRepositoryInput (d_Id d), e)]))"
proof (intro conjI allI impI)
  fix md s1
  assume "CreateRepository (codecommitconn meta) (d_Get d ''repository_name'')
        (d_Get d ''description'') (tagsFromMapCodeCommit meta (d_Get_map d ''tags'')) s
      = (Inr (Some md), s1)"
  then show "resourceAwsCodeCommitRepositoryCreate meta d s =
        (case resourceAwsCodeCommitRepositoryUpdate meta (after_create d md) s1 of
           (r, d', s', ev) \<Rightarrow>
             (r, d', s',
              (CreateRepositoryInput (d_Get d ''repository_name'') (d_Get d ''description'')
                 (tagsFromMapCodeCommit meta (d_Get_map d ''tags'')), None) # ev))"
    by (rule create_then_update)
next
  fix md
  show "d_Id (after_create d md) = d_Get d ''repository_name''"
    by simp
next
  fix d' s' evs
  assume "resourceAwsCodeCommitRepositoryCreate meta d s = (Returned None, d', s', evs)"
  then show "d_Id d' = d_Get d ''repository_name''
        \<or> (d_Id d' = []
            \<and> (\<exists>pre err. evs = pre @ [(GetRepositoryInput (d_Get d ''repository_name''), Some err)]
                  \<and> not_found_on_read (GetRepositoryInput (d_Get d ''repository_name'')) err))"
    by (rule create_nil_Id)
next
  fix r d' s' evs
  assume "resourceAwsCodeCommitRepositoryRead meta d s = (r, d', s', evs)"
  then show "\<exists>e rest. evs = (GetRepositoryInput (d_Id d), e) # rest
           \<and> (\<forall>ev \<in> set rest. is_ListTagsForResource (fst ev))"
    by (rule read_events)
next
  fix r d' s' evs
  assume "resourceAwsCodeCommitRepositoryDelete meta d s = (r, d', s', evs)"
  then show "\<exists>e. evs = [(DeleteRepositoryInput (d_Id d), e)]"
    by (rule delete_events)
qed

theorem create_sets_id_unless_cleared_witness:
  "CreateRepository (codecommitconn scripted) (d_Get new_d ''repository_name'')
     (d_Get new_d ''description'') (tagsFromMapCodeCommit scripted (d_Get_map new_d ''tags''))
     healthy = (Inr (Some demo_metadata), healthy)
   \<and> d_Get new_d ''repository_name'' = ''demo''
   \<and> d_Id (after_create new_d demo_metadata) = ''demo''
   \<and> fst (resourceAwsCodeCommitRepositoryCreate scripted new_d healthy) = Returned None
   \<and> d_Id (fst (snd (resourceAwsCodeCommitRepositoryCreate scripted new_d healthy))) = ''demo''
   \<and> fst (resourceAwsCodeCommitRepositoryCreate scripted new_d (healthy\<lparr>on_get := Inl not_found\<rparr>))
       = Returned None
   \<and> d_Id (fst (snd (resourceAwsCodeCommitRepositoryCreate scripted new_d
        (healthy\<lparr>on_get := Inl not_found\<rparr>)))) = []
   \<and> (\<exists>pre err. snd (snd (snd (resourceAwsCodeCommitRepositoryCreate scripted new_d
            (healthy\<lparr>on_get := Inl not_found\<rparr>)))) = pre @ [(GetRepositoryInput ''demo'', Some err)]
         \<and> not_found_on_read (GetRepositoryInput ''demo'') err)
   \<and> (\<exists>e rest. snd (snd (snd (resourceAwsCodeCommitRepositoryRead scripted existing_d healthy)))
         = (GetRepositoryInput ''demo'', e) # rest)
   \<and> (\<exists>e. snd (snd (snd (resourceAwsCodeCommitRepositoryDelete scripted existing_d healthy)))
         = [(DeleteRepositoryInput ''demo'', e)])"
proof -
  let ?gone = "healthy\<lparr>on_get := Inl not_found\<rparr>"
  let ?G = "resourceAwsCodeCommitRepositoryCreate scripted new_d ?gone"
  let ?R = "resourceAwsCodeCommitRepositoryRead scripted existing_d healthy"
  let ?D = "resourceAwsCodeCommitRepositoryDelete scripted existing_d healthy"
  have g: "CreateRepository (codecommitconn scripted) (d_Get new_d ''repository_name'')
     (d_Get new_d ''description'') (tagsFromMapCodeCommit scripted (d_Get_map new_d ''tags''))
     healthy = (Inr (Some demo_metadata), healthy)"
    by (simp add: healthy_def)
  have i: "d_Id existing_d = ''demo''"
    by (simp add: d_Id_def existing_d_def)
  note fresh = create_sets_id_unless_cleared [of scripted new_d healthy]
  note gone = create_sets_id_unless_cleared [of scripted new_d ?gone]
  note old = create_sets_id_unless_cleared [of scripted existing_d healthy]
  from fresh g have a: "d_Id (after_create new_d demo_metadata) = ''demo''"
    by (simp add: new_d_name)
  have nil: "?G = (Returned None, fst (snd ?G), fst (snd (snd ?G)), snd (snd (snd ?G)))"
    unfolding run_create_not_found(1) [symmetric] by simp
  from gone nil have "d_Id (fst (snd ?G)) = d_Get new_d ''repository_name''
      \<or> (d_Id (fst (snd ?G)) = []
          \<and> (\<exists>pre err. snd (snd (snd ?G))
                = pre @ [(GetRepositoryInput (d_Get new_d ''repository_name''), Some err)]
              \<and> not_found_on_read (GetRepositoryInput (d_Get new_d ''repository_name'')) err))"
    by blast
  then have b: "\<exists>pre err. snd (snd (snd ?G)) = pre @ [(GetRepositoryInput ''demo'', Some err)]
      \<and> not_found_on_read (GetRepositoryInput ''demo'') err"
    by (simp add: new_d_name run_create_not_found(2))
  from old handled_eta [of ?R] have "\<exists>e rest. snd (snd (snd ?R))
      = (GetRepositoryInput (d_Id existing_d), e) # rest
      \<and> (\<forall>ev \<in> set rest. is_ListTagsForResource (fst ev))"
    by blast
  then have c: "\<exists>e rest. snd (snd (snd ?R)) = (GetRepositoryInput ''demo'', e) # rest"
    unfolding i by blast
  from old handled_eta [of ?D] have "\<exists>e. snd (snd (snd ?D)) = [(DeleteRepositoryInput (d_Id existing_d), e)]"
    by blast
  then have d: "\<exists>e. snd (snd (snd ?D)) = [(DeleteRepositoryInput ''demo'', e)]"
    unfolding i .
  from g new_d_name a run_create_healthy run_create_healthy_Id run_create_not_found(1,2) b c d
  show ?thesis
    by (intro conjI)
qed

subsection \<open>Tags\<close>

text \<open>
  Claim C10 says that every Update on a resource that is not new calls the tag helper.
  Update returns at the first step that fails: on the existing resource, with a
  description that has changed and an \<^verbatim>\<open>UpdateRepositoryDescription\<close> that fails, Update
  returns that error after three calls, and the tag helper is not among them.
\<close>

theorem tags_helper_skipped_after_failed_update:
  "\<not> d_IsNewResource existing_d
   \<and> fst (resourceAwsCodeCommitRepositoryUpdate scripted existing_d
          (healthy\<lparr>on_update_description := Some throttled\<rparr>)) =
     Returned (Some ''Error Updating Repository Description for CodeCommit Repository: ThrottlingException: Rate exceeded'')
   \<and> snd (snd (snd (resourceAwsCodeCommitRepositoryUpdate scripted existing_d
          (healthy\<lparr>on_update_description := Some throttled\<rparr>)))) =
     [(ListBranchesInput ''demo'', None),
      (UpdateDefaultBranchInput ''demo'' ''main'', None),
      (UpdateRepositoryDescriptionInput ''demo'' ''a demo'', Some throttled)]
   \<and> filter (\<lambda>ev. is_SetTags (fst ev))
        (snd (snd (snd (resourceAwsCodeCommitRepositoryUpdate scripted existing_d
          (healthy\<lparr>on_update_description := Some throttled\<rparr>))))) = []"
proof -
  have "\<not> d_IsNewResource existing_d"
    by (simp add: d_IsNewResource_def existing_d_def)
  then show ?thesis
    by (simp add: run_update_description_fails)
qed

text \<open>
  Claim C10, amended. An Update on a new resource never calls the tag helper, and a
  Create on a new resource sends the tags in its \<^verbatim>\<open>CreateRepository\<close> request, the first
  call of the run, and in no later call. An Update on a resource that is not new, in
  which no default-branch or description call failed, calls the tag helper once, with
  the resource data it was given, after all its default-branch and description calls
  and before the calls of Read; when the helper fails, no call follows and Update returns
  the error behind the text "error updating CodeCommit Repository tags for", the Id
  and a colon.
\<close>

theorem tags_helper_after_updates:
  "(\<forall>r d' s' evs.
      resourceAwsCodeCommitRepositoryUpdate meta d s = (r, d', s', evs) \<and> d_IsNewResource d \<longrightarrow>
      (\<forall>ev \<in> set evs. \<not> is_SetTags (fst ev)))
   \<and> (\<forall>r d' s' evs.
        resourceAwsCodeCommitRepositoryCreate meta d s = (r, d', s', evs) \<and> d_IsNewResource d \<longrightarrow>
        (\<exists>e rest.
           evs = (CreateRepositoryInput (d_Get d ''repository_name'') (d_Get d ''description'')
                    (tagsFromMapCodeCommit meta (d_Get_map d ''tags'')), e) # rest
           \<and> (\<forall>ev \<in> set rest. \<not> is_SetTags (fst ev) \<and> \<not> is_CreateRepository (fst ev))))
   \<and> (\<forall>r d' s' evs.
        resourceAwsCodeCommitRepositoryUpdate meta d s = (r, d', s', evs) \<and> \<not> d_IsNewResource d
        \<and> (\<forall>ev \<in> set evs. is_update_request (fst ev) \<longrightarrow> snd ev = None) \<longrightarrow>
        (\<exists>ev0 e ev1.
           evs = ev0 @ (SetTagsCall (d_Id d) (d_Get_map d ''tags''), e) # ev1
           \<and> (\<forall>ev \<in> set ev0. is_update_request (fst ev))
           \<and> (\<forall>ev \<in> set ev1. is_read_request (fst ev))
           \<and> (\<forall>err. e = Some err \<longrightarrow>
                 ev1 = [] \<and> d' = d
                 \<and> r = Returned (Some (''error updating CodeCommit Repository tags for '' @ d_Id d
                          @ '': '' @ Error err)))))"
proof (intro conjI allI impI)
  fix r d' s' evs
  assume a: "resourceAwsCodeCommitRepositoryUpdate meta d s = (r, d', s', evs) \<and> d_IsNewResource d"
  show "\<forall>ev \<in> set evs. \<not> is_SetTags (fst ev)"
    by (rule update_new_no_tags [OF conjunct1 [OF a] conjunct2 [OF a]])
next
  fix r d' s' evs
  assume a: "resourceAwsCodeCommitRepositoryCreate meta d s = (r, d', s', evs) \<and> d_IsNewResource d"
  show "\<exists>e rest.
           evs = (CreateRepositoryInput (d_Get d ''repository_name'') (d_Get d ''description'')
                    (tagsFromMapCodeCommit meta (d_Get_map d ''tags'')), e) # rest
           \<and> (\<forall>ev \<in> set rest. \<not> is_SetTags (fst ev) \<and> \<not> is_CreateRepository (fst ev))"
    by (rule create_new_tags_once [OF conjunct1 [OF a] conjunct2 [OF a]])
next
  fix r d' s' evs
  assume a: "resourceAwsCodeCommitRepositoryUpdate meta d s = (r, d', s', evs) \<and> \<not> d_IsNewResource d
        \<and> (\<forall>ev \<in> set evs. is_update_request (fst ev) \<longrightarrow> snd ev = None)"
  show "\<exists>ev0 e ev1.
           evs = ev0 @ (SetTagsCall (d_Id d) (d_Get_map d ''tags''), e) # ev1
           \<and> (\<forall>ev \<in> set ev0. is_update_request (fst ev))
           \<and> (\<forall>ev \<in> set ev1. is_read_request (fst ev))
           \<and> (\<forall>err. e = Some err \<longrightarrow>
                 ev1 = [] \<and> d' = d
                 \<and> r = Returned (Some (''error updating CodeCommit Repository tags for '' @ d_Id d
                          @ '': '' @ Error err)))"
    by (rule update_existing_tags [OF conjunct1 [OF a] conjunct1 [OF conjunct2 [OF a]]
          conjunct2 [OF conjunct2 [OF a]]])
qed

theorem tags_helper_after_updates_witness:
  "d_IsNewResource new_d
   \<and> filter (\<lambda>ev. is_SetTags (fst ev))
        (snd (snd (snd (resourceAwsCodeCommitRepositoryCreate scripted new_d healthy)))) = []
   \<and> \<not> d_IsNewResource existing_d
   \<and> snd (snd (snd (resourceAwsCodeCommitRepositoryUpdate scripted existing_d
          (healthy\<lparr>on_set_tags := Some throttled\<rparr>)))) =
     [(ListBranchesInput ''demo'', None),
      (UpdateDefaultBranchInput ''demo'' ''main'', None),
      (UpdateRepositoryDescriptionInput ''demo'' ''a demo'', None)]
     @ (SetTagsCall ''demo'' Map.empty, Some throttled) # []
   \<and> fst (resourceAwsCodeCommitRepositoryUpdate scripted existing_d
          (healthy\<lparr>on_set_tags := Some throttled\<rparr>)) =
     Returned (Some ''error updating CodeCommit Repository tags for demo: ThrottlingException: Rate exceeded'')"
proof -
  let ?C = "resourceAwsCodeCommitRepositoryCreate scripted new_d healthy"
  let ?bad = "healthy\<lparr>on_set_tags := Some throttled\<rparr>"
  let ?U = "resourceAwsCodeCommitRepositoryUpdate scripted existing_d ?bad"
  let ?pre = "[(ListBranchesInput ''demo'', None),
      (UpdateDefaultBranchInput ''demo'' ''main'', None),
      (UpdateRepositoryDescriptionInput ''demo'' ''a demo'', None)]"
  have new: "d_IsNewResource new_d"
    by (simp add: d_IsNewResource_def new_d_def)
  have old: "\<not> d_IsNewResource existing_d"
    by (simp add: d_IsNewResource_def existing_d_def)
  have i: "d_Id existing_d = ''demo''" "d_Get_map existing_d ''tags'' = Map.empty"
    by (simp_all add: d_Id_def d_Get_map_def existing_d_def)
  note fresh = tags_helper_after_updates [of scripted new_d healthy]
  note upd = tags_helper_after_updates [of scripted existing_d ?bad]
  from fresh handled_eta [of ?C] new obtain e rest where
    c: "snd (snd (snd ?C)) =
          (CreateRepositoryInput (d_Get new_d ''repository_name'') (d_Get new_d ''description'')
             (tagsFromMapCodeCommit scripted (d_Get_map new_d ''tags'')), e) # rest"
       "\<forall>ev \<in> set rest. \<not> is_SetTags (fst ev) \<and> \<not> is_CreateRepository (fst ev)"
    by blast
  from c(2) have "filter (\<lambda>ev. is_SetTags (fst ev)) rest = []"
    by (simp add: filter_empty_conv)
  with c(1) have one: "filter (\<lambda>ev. is_SetTags (fst ev)) (snd (snd (snd ?C))) = []"
    by simp
  have ev: "snd (snd (snd ?U)) = ?pre @ (SetTagsCall ''demo'' Map.empty, Some throttled) # []"
    by (simp add: run_update_tags_fail)
  have quiet: "\<forall>ev \<in> set (snd (snd (snd ?U))). is_update_request (fst ev) \<longrightarrow> snd ev = None"
    by (simp add: run_update_tags_fail is_update_request_def)
  note third = upd [THEN conjunct2, THEN conjunct2, rule_format,
      OF conjI [OF handled_eta conjI [OF old quiet]]]
  from third obtain ev0 e' ev1 where
    u: "snd (snd (snd ?U)) = ev0 @ (SetTagsCall (d_Id existing_d) (d_Get_map existing_d ''tags''), e') # ev1"
       "\<forall>err. e' = Some err \<longrightarrow> ev1 = [] \<and> fst (snd ?U) = existing_d
          \<and> fst ?U = Returned (Some (''error updating CodeCommit Repository tags for ''
               @ d_Id existing_d @ '': '' @ Error err))"
    by blast
  from u(1) have "(SetTagsCall ''demo'' Map.empty, e') \<in> set (snd (snd (snd ?U)))"
    by (simp add: i)
  then have "e' = Some throttled"
    by (simp add: run_update_tags_fail)
  with u(2) have "fst ?U = Returned (Some (''error updating CodeCommit Repository tags for ''
               @ d_Id existing_d @ '': '' @ Error throttled))"
    by simp
  then have two: "fst ?U =
     Returned (Some ''error updating CodeCommit Repository tags for demo: ThrottlingException: Rate exceeded'')"
    by (simp add: i throttled_def)
  from new one old ev two show ?thesis
    by (intro conjI)
qed

subsection \<open>The attributes\<close>

text \<open>
  Claim C7 lists the attributes of the schema as name, description, arn, repository_id,
  clone_url_http, clone_url_ssh, default_branch and tags. The schema has no attribute
  \<^verbatim>\<open>name\<close>: the name of the repository is the attribute \<^verbatim>\<open>repository_name\<close>.
\<close>

theorem schema_has_no_name_attribute:
  "map_of resourceAwsCodeCommitRepository_Schema ''name'' = None
   \<and> ''name'' \<notin> set (map fst resourceAwsCodeCommitRepository_Schema)
   \<and> set (map fst resourceAwsCodeCommitRepository_Schema) \<noteq>
       {''name'', ''description'', ''arn'', ''repository_id'', ''clone_url_http'',
        ''clone_url_ssh'', ''default_branch'', ''tags''}"
proof -
  have keys: "map fst resourceAwsCodeCommitRepository_Schema =
      [''repository_name'', ''description'', ''arn'', ''repository_id'', ''clone_url_http'',
       ''clone_url_ssh'', ''default_branch'', ''tags'']"
    by (simp add: resourceAwsCodeCommitRepository_Schema_def)
  have a: "map_of resourceAwsCodeCommitRepository_Schema ''name'' = None"
    by (simp add: resourceAwsCodeCommitRepository_Schema_def)
  have b: "''name'' \<notin> set (map fst resourceAwsCodeCommitRepository_Schema)"
    unfolding keys by simp
  have "''name'' \<in> {''name'', ''description'', ''arn'', ''repository_id'', ''clone_url_http'',
        ''clone_url_ssh'', ''default_branch'', ''tags''}"
    by simp
  with b have c: "set (map fst resourceAwsCodeCommitRepository_Schema) \<noteq>
       {''name'', ''description'', ''arn'', ''repository_id'', ''clone_url_http'',
        ''clone_url_ssh'', ''default_branch'', ''tags''}"
    by metis
  from a b c show ?thesis by (intro conjI)
qed

text \<open>
  Claim C7, amended. The attributes of the schema are exactly \<^verbatim>\<open>repository_name\<close>,
  \<^verbatim>\<open>description\<close>, \<^verbatim>\<open>arn\<close>, \<^verbatim>\<open>repository_id\<close>, \<^verbatim>\<open>clone_url_http\<close>, \<^verbatim>\<open>clone_url_ssh\<close>,
  \<^verbatim>\<open>default_branch\<close> and \<^verbatim>\<open>tags\<close>. The four attributes \<^verbatim>\<open>arn\<close>, \<^verbatim>\<open>repository_id\<close>,
  \<^verbatim>\<open>clone_url_http\<close> and \<^verbatim>\<open>clone_url_ssh\<close> are computed and neither optional nor
  required, so the configuration cannot set them; the three other string attributes
  are not computed. The validation of \<^verbatim>\<open>description\<close> accepts a string exactly when
  its length is at most 1000.
\<close>

theorem schema_attributes:
  "map fst resourceAwsCodeCommitRepository_Schema =
     [''repository_name'', ''description'', ''arn'', ''repository_id'', ''clone_url_http'',
      ''clone_url_ssh'', ''default_branch'', ''tags'']
   \<and> map (\<lambda>k. map_option (\<lambda>sch. (Computed sch, Optional sch, Required sch))
              (map_of resourceAwsCodeCommitRepository_Schema k))
        [''arn'', ''repository_id'', ''clone_url_http'', ''clone_url_ssh'']
       = [Some (True, False, False), Some (True, False, False), Some (True, False, False),
          Some (True, False, False)]
   \<and> map (\<lambda>k. map_option Computed (map_of resourceAwsCodeCommitRepository_Schema k))
        [''repository_name'', ''description'', ''default_branch'']
       = [Some False, Some False, Some False]
   \<and> (\<forall>v. (\<exists>sch. map_of resourceAwsCodeCommitRepository_Schema ''description'' = Some sch
              \<and> accepts sch ''description'' v) = (length v \<le> 1000))"
proof -
  have d: "map_of resourceAwsCodeCommitRepository_Schema ''description'' =
      Some (schema_zero\<lparr>Type := TypeString, Optional := True,
        ValidateFunc := Some (StringLenBetween 0 1000)\<rparr>)"
    by (simp add: resourceAwsCodeCommitRepository_Schema_def)
  have keys: "map fst resourceAwsCodeCommitRepository_Schema =
      [''repository_name'', ''description'', ''arn'', ''repository_id'', ''clone_url_http'',
       ''clone_url_ssh'', ''default_branch'', ''tags'']"
    by (simp add: resourceAwsCodeCommitRepository_Schema_def)
  have comp: "map (\<lambda>k. map_option (\<lambda>sch. (Computed sch, Optional sch, Required sch))
              (map_of resourceAwsCodeCommitRepository_Schema k))
        [''arn'', ''repository_id'', ''clone_url_http'', ''clone_url_ssh'']
       = [Some (True, False, False), Some (True, False, False), Some (True, False, False),
          Some (True, False, False)]"
    by (simp add: resourceAwsCodeCommitRepository_Schema_def schema_zero_def)
  have conf: "map (\<lambda>k. map_option Computed (map_of resourceAwsCodeCommitRepository_Schema k))
        [''repository_name'', ''description'', ''default_branch'']
       = [Some False, Some False, Some False]"
    by (simp add: resourceAwsCodeCommitRepository_Schema_def schema_zero_def)
  have acc: "\<forall>v. (\<exists>sch. map_of resourceAwsCodeCommitRepository_Schema ''description'' = Some sch
              \<and> accepts sch ''description'' v) = (length v \<le> 1000)"
    unfolding d by (simp add: accepts_description)
  from keys comp conf acc show ?thesis by (intro conjI)
qed

end
